theory Spec2Isabelle
  imports Main
begin

section \<open>Strings as Python sees them\<close>

text \<open>
  The dependency checker (plugins/utils/scripts/dependency-checker.py) works on Python
  \<open>str\<close> values. They are modelled as \<open>string\<close>, a list of 8-bit characters read
  as the code points 0..255. On that range \<open>str.strip()\<close> removes the characters
  below and \<open>\d\<close> is exactly \<open>0-9\<close>. Python's integers are unbounded and so are
  HOL's: \<open>int_of_digits\<close> is the decimal value of a digit string. The conversion
  \<open>int(...)\<close> itself raises \<open>ValueError\<close> on more than 4300 digits (CPython's default
  limit on integer string conversion); \<open>to_int\<close> below is the conversion with that
  branch.
\<close>

definition is_space :: "char \<Rightarrow> bool" where
  "is_space c =
     (let n = (of_char c :: nat)
      in (9 \<le> n \<and> n \<le> 13) \<or> (28 \<le> n \<and> n \<le> 32) \<or> n = 133 \<or> n = 160)"

definition is_digit :: "char \<Rightarrow> bool" where
  "is_digit c = (let n = (of_char c :: nat) in 48 \<le> n \<and> n \<le> 57)"

definition is_lower_hex :: "char \<Rightarrow> bool" where
  "is_lower_hex c = (let n = (of_char c :: nat) in (48 \<le> n \<and> n \<le> 57) \<or> (97 \<le> n \<and> n \<le> 102))"

definition is_ident :: "char \<Rightarrow> bool" where
  \<comment> \<open>the character class \<open>[a-zA-Z0-9.-]\<close>\<close>
  "is_ident c =
     (let n = (of_char c :: nat)
      in (97 \<le> n \<and> n \<le> 122) \<or> (65 \<le> n \<and> n \<le> 90) \<or> (48 \<le> n \<and> n \<le> 57)
         \<or> n = 46 \<or> n = 45)"

definition lstrip :: "(char \<Rightarrow> bool) \<Rightarrow> string \<Rightarrow> string" where
  "lstrip p s = dropWhile p s"

definition rstrip :: "(char \<Rightarrow> bool) \<Rightarrow> string \<Rightarrow> string" where
  "rstrip p s = rev (dropWhile p (rev s))"

definition strip :: "string \<Rightarrow> string" where
  \<comment> \<open>\<open>s.strip()\<close>\<close>
  "strip s = rstrip is_space (lstrip is_space s)"

definition startswith :: "string \<Rightarrow> string \<Rightarrow> bool" where
  "startswith s p = (take (length p) s = p)"

definition int_of_digits :: "string \<Rightarrow> int" where
  \<comment> \<open>\<open>int(d)\<close> for a string of decimal digits\<close>
  "int_of_digits d = foldl (\<lambda>acc c. 10 * acc + (int (of_char c) - 48)) 0 d"

fun digits_of_nat :: "nat \<Rightarrow> string" where
  "digits_of_nat n =
     (if n < 10 then [char_of (48 + n)]
      else digits_of_nat (n div 10) @ [char_of (48 + n mod 10)])"

declare digits_of_nat.simps [simp del]

definition str_of_int :: "int \<Rightarrow> string" where
  \<comment> \<open>\<open>str(i)\<close>, as an f-string formats an integer\<close>
  "str_of_int i = (if i < 0 then CHR ''-'' # digits_of_nat (nat (- i)) else digits_of_nat (nat i))"

fun str_lt :: "string \<Rightarrow> string \<Rightarrow> bool" where
  \<comment> \<open>\<open>a < b\<close> on \<open>str\<close>: lexicographic on code points, a proper prefix is smaller\<close>
  "str_lt [] [] = False"
| "str_lt [] (y # ys) = True"
| "str_lt (x # xs) [] = False"
| "str_lt (x # xs) (y # ys) =
     ((of_char x :: nat) < of_char y \<or> (x = y \<and> str_lt xs ys))"

section \<open>The two regular expressions of \<open>Version.parse\<close>\<close>

text \<open>
  \<open>re.match\<close> anchors at the start; \<open>$\<close> matches at the end of the string or just
  before a final newline.
\<close>

definition at_end :: "string \<Rightarrow> bool" where
  "at_end r = (r = [] \<or> r = [CHR 0x0A])"

definition hex12_match :: "string \<Rightarrow> bool" where
  \<comment> \<open>\<open>re.match(r"^[0-9a-f]{12}$", s)\<close>\<close>
  "hex12_match s =
     (length (take 12 s) = 12 \<and> list_all is_lower_hex (take 12 s) \<and> at_end (drop 12 s))"

definition opt_dot_digits :: "string \<Rightarrow> string option \<times> string" where
  \<comment> \<open>the optional group \<open>(?:\.(\d+))?\<close>: the captured digits and the rest\<close>
  "opt_dot_digits s =
     (case s of
        [] \<Rightarrow> (None, s)
      | c # r \<Rightarrow>
          if c = CHR ''.'' \<and> takeWhile is_digit r \<noteq> []
          then (Some (takeWhile is_digit r), dropWhile is_digit r)
          else (None, s))"

definition opt_tagged :: "char \<Rightarrow> string \<Rightarrow> string option \<times> string" where
  \<comment> \<open>the optional groups \<open>(?:-([a-zA-Z0-9.-]+))?\<close> and \<open>(?:\+([a-zA-Z0-9.-]+))?\<close>\<close>
  "opt_tagged t s =
     (case s of
        [] \<Rightarrow> (None, s)
      | c # r \<Rightarrow>
          if c = t \<and> takeWhile is_ident r \<noteq> []
          then (Some (takeWhile is_ident r), dropWhile is_ident r)
          else (None, s))"

text \<open>
  The semver pattern
  \<open>^(\d+)(?:\.(\d+))?(?:\.(\d+))?(?:-([a-zA-Z0-9.-]+))?(?:\+([a-zA-Z0-9.-]+))?$\<close>.
  Every repetition is greedy and is followed only by elements that reject the characters
  it repeats over (a digit run is followed by \<open>.\<close>, \<open>-\<close>, \<open>+\<close> or the end; an identifier
  run by \<open>+\<close> or the end), and skipping an optional group that matched leaves the next
  element facing the same text, so backtracking never finds a match the greedy pass
  misses and the greedy pass's groups are the ones \<open>re\<close> reports.
\<close>

definition semver_match ::
  "string \<Rightarrow> (string \<times> string option \<times> string option \<times> string option \<times> string option) option" where
  "semver_match s =
     (let g1 = takeWhile is_digit s; r1 = dropWhile is_digit s
      in if g1 = [] then None
         else
           let (g2, r2) = opt_dot_digits r1;
               (g3, r3) = opt_dot_digits r2;
               (g4, r4) = opt_tagged (CHR ''-'') r3;
               (g5, r5) = opt_tagged (CHR ''+'') r4
           in if at_end r5 then Some (g1, g2, g3, g4, g5) else None)"

section \<open>Version\<close>

record Version =
  major :: int
  minor :: int
  patch :: int
  prerelease :: string
  build :: string

definition Version_parse :: "string \<Rightarrow> Version option" where
  "Version_parse version_str =
     (if version_str = [] then None
      else
        let s = lstrip (\<lambda>c. c = CHR ''v'') (strip version_str)
        in if hex12_match s then None
           else
             (case semver_match s of
                None \<Rightarrow> None
              | Some (g1, g2, g3, g4, g5) \<Rightarrow>
                  Some \<lparr> major = int_of_digits g1,
                         minor = (case g2 of None \<Rightarrow> 0 | Some d \<Rightarrow> int_of_digits d),
                         patch = (case g3 of None \<Rightarrow> 0 | Some d \<Rightarrow> int_of_digits d),
                         prerelease = (case g4 of None \<Rightarrow> [] | Some p \<Rightarrow> p),
                         build = (case g5 of None \<Rightarrow> [] | Some b \<Rightarrow> b) \<rparr>))"

definition Version_str :: "Version \<Rightarrow> string" where
  \<comment> \<open>\<open>Version.__str__\<close>\<close>
  "Version_str v =
     (let result = str_of_int (major v) @ ''.'' @ str_of_int (minor v) @ ''.'' @ str_of_int (patch v);
          result = (if prerelease v \<noteq> [] then result @ ''-'' @ prerelease v else result);
          result = (if build v \<noteq> [] then result @ ''+'' @ build v else result)
      in result)"

definition tuple_lt :: "int \<times> int \<times> int \<Rightarrow> int \<times> int \<times> int \<Rightarrow> bool" where
  \<comment> \<open>\<open><\<close> on Python 3-tuples of integers\<close>
  "tuple_lt x y =
     (case x of (a, b, c) \<Rightarrow> case y of (d, e, f) \<Rightarrow>
        a < d \<or> (a = d \<and> (b < e \<or> (b = e \<and> c < f))))"

definition Version_lt :: "Version \<Rightarrow> Version \<Rightarrow> bool" where
  \<comment> \<open>\<open>Version.__lt__\<close>\<close>
  "Version_lt self other =
     (if (major self, minor self, patch self) \<noteq> (major other, minor other, patch other)
      then tuple_lt (major self, minor self, patch self) (major other, minor other, patch other)
      else if prerelease self \<noteq> [] \<and> prerelease other = [] then True
      else if prerelease self = [] \<and> prerelease other \<noteq> [] then False
      else str_lt (prerelease self) (prerelease other))"

definition Version_eq :: "Version \<Rightarrow> Version \<Rightarrow> bool" where
  \<comment> \<open>\<open>Version.__eq__\<close>\<close>
  "Version_eq self other =
     (major self = major other \<and> minor self = minor other \<and> patch self = patch other
      \<and> prerelease self = prerelease other)"

definition Version_le :: "Version \<Rightarrow> Version \<Rightarrow> bool" where
  "Version_le self other = (Version_lt self other \<or> Version_eq self other)"

definition Version_gt :: "Version \<Rightarrow> Version \<Rightarrow> bool" where
  "Version_gt self other = (\<not> Version_le self other)"

definition Version_ge :: "Version \<Rightarrow> Version \<Rightarrow> bool" where
  "Version_ge self other = (\<not> Version_lt self other)"

definition pre_lt :: "string \<Rightarrow> string \<Rightarrow> bool" where
  \<comment> \<open>the last three branches of \<open>__lt__\<close>, on the two prerelease strings alone\<close>
  "pre_lt p q =
     (if p \<noteq> [] \<and> q = [] then True
      else if p = [] \<and> q \<noteq> [] then False
      else str_lt p q)"

section \<open>Constraints\<close>

definition operators :: "string list" where
  "operators = [''>='', ''<='', ''>'', ''<'', ''^'', ''~'', ''='']"

fun match_operator :: "string list \<Rightarrow> string \<Rightarrow> string \<times> string" where
  \<comment> \<open>the loop over the operators, then the fall-through to an exact match\<close>
  "match_operator [] c = (''='', c)"
| "match_operator (op # ops) c =
     (if startswith c op then (op, strip (drop (length op) c)) else match_operator ops c)"

definition parse_version_constraint :: "string \<Rightarrow> string \<times> string" where
  "parse_version_constraint c0 =
     (let c = strip c0
      in if c = ''*'' then (''*'', '''') else match_operator operators c)"

definition caret_ok :: "Version \<Rightarrow> Version \<Rightarrow> bool" where
  \<comment> \<open>the \<open>^\<close> branch of \<open>version_satisfies\<close>\<close>
  "caret_ok installed required =
     (if Version_lt installed required then False
      else if major required \<noteq> 0 then major installed = major required
      else if minor required \<noteq> 0 then major installed = 0 \<and> minor installed = minor required
      else major installed = 0 \<and> minor installed = 0 \<and> patch installed = patch required)"

definition tilde_ok :: "Version \<Rightarrow> Version \<Rightarrow> bool" where
  \<comment> \<open>the \<open>~\<close> branch of \<open>version_satisfies\<close>\<close>
  "tilde_ok installed required =
     (if Version_lt installed required then False
      else major installed = major required \<and> minor installed = minor required)"

definition version_satisfies :: "string \<Rightarrow> string \<Rightarrow> bool" where
  "version_satisfies installed_version constraint =
     (if constraint = ''*'' then True
      else
        (case Version_parse installed_version of
           None \<Rightarrow> True
         | Some installed \<Rightarrow>
             (case parse_version_constraint constraint of
                (operator, version_str) \<Rightarrow>
                  if operator = ''*'' then True
                  else
                    (case Version_parse version_str of
                       None \<Rightarrow> True
                     | Some required \<Rightarrow>
                         if operator = ''='' then Version_eq installed required
                         else if operator = ''>='' then Version_ge installed required
                         else if operator = ''<='' then Version_le installed required
                         else if operator = ''>'' then Version_gt installed required
                         else if operator = ''<'' then Version_lt installed required
                         else if operator = ''^'' then caret_ok installed required
                         else if operator = ''~'' then tilde_ok installed required
                         else True))))"

section \<open>The conversion limit of \<open>int\<close>\<close>

text \<open>
  \<open>Version.parse\<close> calls \<open>int\<close> on the digit groups outside any \<open>try\<close>, and nothing
  in \<open>version_satisfies\<close> catches what it raises. \<open>Version_parse\<close> and
  \<open>version_satisfies\<close> above give the value the code returns when it returns; the two
  functions below are the same code with the \<open>ValueError\<close> of \<open>int\<close> as a branch.
\<close>

datatype error = ValueError

definition int_max_str_digits :: nat where
  \<comment> \<open>\<open>sys.int_info.default_max_str_digits\<close>\<close>
  "int_max_str_digits = 4300"

definition to_int :: "string \<Rightarrow> error + int" where
  \<comment> \<open>\<open>int(d)\<close> for a string of decimal digits\<close>
  "to_int d = (if int_max_str_digits < length d then Inl ValueError else Inr (int_of_digits d))"

definition to_int_or_0 :: "string option \<Rightarrow> error + int" where
  \<comment> \<open>\<open>int(match.group(k) or 0)\<close>\<close>
  "to_int_or_0 g = (case g of None \<Rightarrow> Inr 0 | Some d \<Rightarrow> to_int d)"

definition Version_parse_raising :: "string \<Rightarrow> error + Version option" where
  "Version_parse_raising version_str =
     (if version_str = [] then Inr None
      else
        let s = lstrip (\<lambda>c. c = CHR ''v'') (strip version_str)
        in if hex12_match s then Inr None
           else
             (case semver_match s of
                None \<Rightarrow> Inr None
              | Some (g1, g2, g3, g4, g5) \<Rightarrow>
                  (case to_int g1 of
                     Inl e \<Rightarrow> Inl e
                   | Inr ma \<Rightarrow>
                       (case to_int_or_0 g2 of
                          Inl e \<Rightarrow> Inl e
                        | Inr mi \<Rightarrow>
                            (case to_int_or_0 g3 of
                               Inl e \<Rightarrow> Inl e
                             | Inr pa \<Rightarrow>
                                 Inr (Some \<lparr> major = ma, minor = mi, patch = pa,
                                   prerelease = (case g4 of None \<Rightarrow> [] | Some p \<Rightarrow> p),
                                   build = (case g5 of None \<Rightarrow> [] | Some b \<Rightarrow> b) \<rparr>))))))"

definition version_satisfies_raising :: "string \<Rightarrow> string \<Rightarrow> error + bool" where
  "version_satisfies_raising installed_version constraint =
     (if constraint = ''*'' then Inr True
      else
        (case Version_parse_raising installed_version of
           Inl e \<Rightarrow> Inl e
         | Inr None \<Rightarrow> Inr True
         | Inr (Some installed) \<Rightarrow>
             (case parse_version_constraint constraint of
                (operator, version_str) \<Rightarrow>
                  if operator = ''*'' then Inr True
                  else
                    (case Version_parse_raising version_str of
                       Inl e \<Rightarrow> Inl e
                     | Inr None \<Rightarrow> Inr True
                     | Inr (Some required) \<Rightarrow>
                         Inr (if operator = ''='' then Version_eq installed required
                              else if operator = ''>='' then Version_ge installed required
                              else if operator = ''<='' then Version_le installed required
                              else if operator = ''>'' then Version_gt installed required
                              else if operator = ''<'' then Version_lt installed required
                              else if operator = ''^'' then caret_ok installed required
                              else if operator = ''~'' then tilde_ok installed required
                              else True)))))"

section \<open>Results\<close>

record DependencyResult =
  plugin :: "string option"
  command :: "string option"
  marketplace :: "string option"
  dependent :: string
  required_version :: string
  installed :: bool
  enabled :: bool
  installed_version :: "string option"
  valid :: bool
  help_text :: string

definition new_DependencyResult ::
  "string option \<Rightarrow> string option \<Rightarrow> string option \<Rightarrow> string \<Rightarrow> string \<Rightarrow> DependencyResult" where
  \<comment> \<open>the dataclass constructor with its defaults; \<open>help_text\<close> is the field \<open>help\<close>\<close>
  "new_DependencyResult p c m d rv =
     \<lparr> plugin = p, command = c, marketplace = m, dependent = d, required_version = rv,
       installed = False, enabled = False, installed_version = None, valid = False,
       help_text = [] \<rparr>"

datatype scope = Enabled | Installed | All

record CheckResult =
  checked_scope :: scope
  checked_plugin :: "string option"
  dependencies :: "DependencyResult list"
  optional_dependencies :: "DependencyResult list"
  system_dependencies :: "DependencyResult list"
  optional_system_dependencies :: "DependencyResult list"

section \<open>The registries\<close>

text \<open>
  A Python \<open>dict\<close> read from JSON is an association list in insertion order; its keys
  are distinct, which the theorems that need it assume. An install record and a
  marketplace record are JSON objects with string values.
\<close>

type_synonym json_obj = "(string \<times> string) list"

record DependencyChecker =
  installed_plugins :: "(string \<times> json_obj list) list"
  enabled_plugins :: "(string \<times> bool) list"
  known_marketplaces :: "(string \<times> json_obj) list"

definition dict_get :: "('k \<times> 'v) list \<Rightarrow> 'k \<Rightarrow> 'v \<Rightarrow> 'v" where
  \<comment> \<open>\<open>d.get(k, default)\<close>\<close>
  "dict_get d k dflt = (case map_of d k of None \<Rightarrow> dflt | Some v \<Rightarrow> v)"

definition truthy :: "string option \<Rightarrow> bool" where
  \<comment> \<open>\<open>if marketplace:\<close> on a \<open>str | None\<close>\<close>
  "truthy m = (case m of None \<Rightarrow> False | Some s \<Rightarrow> s \<noteq> [])"

definition str_or_empty :: "string option \<Rightarrow> string" where
  "str_or_empty m = (case m of None \<Rightarrow> [] | Some s \<Rightarrow> s)"

definition info_or_empty :: "json_obj option \<Rightarrow> json_obj" where
  "info_or_empty m = (case m of None \<Rightarrow> [] | Some s \<Rightarrow> s)"

definition get_plugin_key :: "string \<Rightarrow> string \<Rightarrow> string" where
  "get_plugin_key plugin_name mkt = plugin_name @ ''@'' @ mkt"

definition parse_plugin_key :: "string \<Rightarrow> string \<times> string" where
  \<comment> \<open>\<open>plugin_key.rsplit("@", 1)\<close>: split at the last \<open>@\<close>\<close>
  "parse_plugin_key plugin_key =
     (if CHR ''@'' \<in> set plugin_key
      then (rev (tl (dropWhile (\<lambda>c. c \<noteq> CHR ''@'') (rev plugin_key))),
            rev (takeWhile (\<lambda>c. c \<noteq> CHR ''@'') (rev plugin_key)))
      else (plugin_key, []))"

fun search_installed :: "(string \<times> json_obj list) list \<Rightarrow> string \<Rightarrow> json_obj option" where
  \<comment> \<open>the loop "Search all installed plugins"\<close>
  "search_installed [] plugin_name = None"
| "search_installed ((key, installs) # rest) plugin_name =
     (if fst (parse_plugin_key key) = plugin_name
      then (case installs of i # _ \<Rightarrow> Some i | [] \<Rightarrow> search_installed rest plugin_name)
      else search_installed rest plugin_name)"

definition exact_installed :: "DependencyChecker \<Rightarrow> string \<Rightarrow> string option \<Rightarrow> json_obj option" where
  \<comment> \<open>the block "Try exact key match first"\<close>
  "exact_installed self plugin_name mkt =
     (if truthy mkt
      then (case map_of (installed_plugins self) (get_plugin_key plugin_name (str_or_empty mkt)) of
              Some (i # _) \<Rightarrow> Some i
            | _ \<Rightarrow> None)
      else None)"

definition get_installed_plugin_info ::
  "DependencyChecker \<Rightarrow> string \<Rightarrow> string option \<Rightarrow> json_obj option" where
  "get_installed_plugin_info self plugin_name mkt =
     (case exact_installed self plugin_name mkt of
        Some i \<Rightarrow> Some i
      | None \<Rightarrow> search_installed (installed_plugins self) plugin_name)"

definition is_plugin_enabled :: "DependencyChecker \<Rightarrow> string \<Rightarrow> string option \<Rightarrow> bool" where
  "is_plugin_enabled self plugin_name mkt =
     (if truthy mkt
      then dict_get (enabled_plugins self) (get_plugin_key plugin_name (str_or_empty mkt)) False
      else list_ex (\<lambda>(key, en). fst (parse_plugin_key key) = plugin_name \<and> en) (enabled_plugins self))"

definition info_truthy :: "json_obj option \<Rightarrow> bool" where
  \<comment> \<open>\<open>if info:\<close> on a \<open>dict | None\<close>: an empty record counts as none\<close>
  "info_truthy info = (case info of None \<Rightarrow> False | Some i \<Rightarrow> i \<noteq> [])"

section \<open>Checking one dependency\<close>

definition check_plugin_dependency ::
  "DependencyChecker \<Rightarrow> string \<Rightarrow> string option \<Rightarrow> string \<Rightarrow> string \<Rightarrow> DependencyResult" where
  "check_plugin_dependency self dep_plugin dep_marketplace req dep =
     (let result = new_DependencyResult (Some dep_plugin) None dep_marketplace dep req;
          info = get_installed_plugin_info self dep_plugin dep_marketplace
      in if info_truthy info
         then
           let iv = map_of (info_or_empty info) ''version'';
               en = is_plugin_enabled self dep_plugin dep_marketplace;
               ok = (if truthy iv then version_satisfies (str_or_empty iv) req else True)
           in result \<lparr> installed := True, installed_version := iv, enabled := en, valid := ok,
                help_text :=
                  (if \<not> ok
                   then ''Installed version '' @ str_or_empty iv @ '' does not satisfy ''
                        @ ''required version '' @ req
                   else if \<not> en then ''Plugin '' @ dep_plugin @ '' is installed but not enabled''
                   else []) \<rparr>
         else
           result \<lparr> valid := False,
             help_text :=
               (if truthy dep_marketplace
                then ''Plugin '' @ dep_plugin @ '' from '' @ str_or_empty dep_marketplace
                     @ '' is not installed. '' @ ''Install with: claude plugin install '' @ dep_plugin
                else ''Plugin '' @ dep_plugin @ '' is not installed. ''
                     @ ''Install with: claude plugin install '' @ dep_plugin) \<rparr>)"

text \<open>
  The system probe runs a subprocess per version flag. What one attempt can do is the
  environment's: it raises (timeout, subprocess or OS error), prints nothing, or prints
  something in which the version pattern finds a version or not, with a return code.
\<close>

datatype flag_attempt = Failed | Silent | Printed "string option" int

record system_env =
  which :: "string \<Rightarrow> bool"
  try_flag :: "string \<Rightarrow> string \<Rightarrow> flag_attempt"

definition version_flags :: "string list" where
  "version_flags = [''--version'', ''-version'', ''-v'', ''version'']"

fun probe_flags :: "(string \<Rightarrow> flag_attempt) \<Rightarrow> string list \<Rightarrow> bool \<times> string option" where
  "probe_flags run [] = (True, None)"
| "probe_flags run (flag # flags) =
     (case run flag of
        Failed \<Rightarrow> probe_flags run flags
      | Silent \<Rightarrow> probe_flags run flags
      | Printed (Some v) rc \<Rightarrow> (True, Some v)
      | Printed None rc \<Rightarrow> if rc = 0 then (True, None) else probe_flags run flags)"

definition check_system_command :: "system_env \<Rightarrow> string \<Rightarrow> bool \<times> string option" where
  "check_system_command env cmd =
     (if \<not> which env cmd then (False, None) else probe_flags (try_flag env cmd) version_flags)"

definition check_system_dependency ::
  "system_env \<Rightarrow> string \<Rightarrow> string \<Rightarrow> string \<Rightarrow> DependencyResult" where
  "check_system_dependency env cmd req dep =
     (let result = new_DependencyResult None (Some cmd) None dep req
      in case check_system_command env cmd of
           (is_available, version) \<Rightarrow>
             let result = result \<lparr> installed := is_available, installed_version := version,
                                   enabled := is_available \<rparr>
             in if is_available
                then
                  if truthy version \<and> req \<noteq> [] \<and> req \<noteq> ''*''
                  then
                    let ok = version_satisfies (str_or_empty version) req
                    in result \<lparr> valid := ok,
                         help_text :=
                           (if \<not> ok
                            then ''Installed version '' @ str_or_empty version
                                 @ '' does not satisfy '' @ ''required version '' @ req
                            else []) \<rparr>
                  else result \<lparr> valid := True \<rparr>
                else
                  result \<lparr> valid := False,
                    help_text := ''Command '' @ [CHR 0x27] @ cmd @ [CHR 0x27]
                                 @ '' is not installed or not in PATH. ''
                                 @ ''Please install '' @ cmd @ '' to use this plugin.'' \<rparr>)"

section \<open>Which plugins to check\<close>

text \<open>
  Scope \<open>all\<close> walks the \<open>plugins/\<close> directory of every known marketplace. The file
  system is the environment's, given as data: the install locations that exist, and for
  the locations that have a \<open>plugins\<close> directory its entries, each with its name, its
  path as a string, whether it is a directory and whether it holds a \<open>.claude-plugin\<close>
  entry. A directory lists every name once.
\<close>

record dir_entry =
  entry_name :: string
  entry_path :: string
  is_dir :: bool
  has_claude_plugin :: bool

record file_system =
  existing :: "string list"
  plugins_dirs :: "(string \<times> dir_entry list) list"

definition path_exists :: "file_system \<Rightarrow> string \<Rightarrow> bool" where
  \<comment> \<open>\<open>Path(install_location).exists()\<close>\<close>
  "path_exists fs p = (p \<in> set (existing fs))"

definition plugins_dir :: "file_system \<Rightarrow> string \<Rightarrow> dir_entry list option" where
  \<comment> \<open>\<open>(mkt_path / "plugins").iterdir()\<close>, \<open>None\<close> when the directory does not exist\<close>
  "plugins_dir fs p = map_of (plugins_dirs fs) p"

type_synonym plugin_tuple = "string \<times> string \<times> string"

fun search_by_name :: "(string \<times> json_obj list) list \<Rightarrow> string \<Rightarrow> plugin_tuple list" where
  \<comment> \<open>the loop "Search by name" of the single-plugin branch, left at its \<open>break\<close>\<close>
  "search_by_name [] name = []"
| "search_by_name ((key, installs) # rest) name =
     (case parse_plugin_key key of
        (pname, pmkt) \<Rightarrow>
          if pname = name \<and> installs \<noteq> []
          then [(key, dict_get (hd installs) ''installPath'' [], pmkt)]
          else search_by_name rest name)"

definition installed_tuples :: "(string \<times> json_obj list) list \<Rightarrow> plugin_tuple list" where
  \<comment> \<open>the loop over \<open>installed_plugins.items()\<close> of the scopes \<open>installed\<close> and \<open>all\<close>\<close>
  "installed_tuples ps =
     map (\<lambda>(plugin_key, installs).
            (plugin_key, dict_get (hd installs) ''installPath'' [], snd (parse_plugin_key plugin_key)))
         (filter (\<lambda>(plugin_key, installs). installs \<noteq> []) ps)"

definition enabled_tuples :: "DependencyChecker \<Rightarrow> plugin_tuple list" where
  "enabled_tuples self =
     concat (map (\<lambda>(plugin_key, en).
        if en
        then (case parse_plugin_key plugin_key of
                (name, mkt) \<Rightarrow>
                  let info = get_installed_plugin_info self name (Some mkt)
                  in if info_truthy info
                     then [(plugin_key, dict_get (info_or_empty info) ''installPath'' [], mkt)]
                     else [])
        else []) (enabled_plugins self))"

definition marketplace_tuples ::
  "file_system \<Rightarrow> string set \<Rightarrow> string \<times> json_obj \<Rightarrow> plugin_tuple list" where
  \<comment> \<open>one turn of the loop over \<open>known_marketplaces.items()\<close>\<close>
  "marketplace_tuples fs installed_keys m =
     (case m of
        (mkt_name, mkt_info) \<Rightarrow>
          let install_location = dict_get mkt_info ''installLocation'' []
          in if install_location = [] then []
             else if \<not> path_exists fs install_location then []
             else
               (case plugins_dir fs install_location of
                  None \<Rightarrow> []
                | Some entries \<Rightarrow>
                    map (\<lambda>d. (entry_name d @ ''@'' @ mkt_name, entry_path d, mkt_name))
                      (filter (\<lambda>d. is_dir d \<and> has_claude_plugin d
                                 \<and> entry_name d @ ''@'' @ mkt_name \<notin> installed_keys) entries)))"

definition get_plugins_to_check ::
  "file_system \<Rightarrow> DependencyChecker \<Rightarrow> scope \<Rightarrow> string option \<Rightarrow> plugin_tuple list" where
  "get_plugins_to_check fs self sc specific_plugin =
     (if truthy specific_plugin
      then
        (case parse_plugin_key (str_or_empty specific_plugin) of
           (name, mkt) \<Rightarrow>
             if mkt \<noteq> []
             then
               let info = get_installed_plugin_info self name (Some mkt)
               in if info_truthy info
                  then [(str_or_empty specific_plugin,
                         dict_get (info_or_empty info) ''installPath'' [], mkt)]
                  else []
             else search_by_name (installed_plugins self) name)
      else
        (case sc of
           Enabled \<Rightarrow> enabled_tuples self
         | Installed \<Rightarrow> installed_tuples (installed_plugins self)
         | All \<Rightarrow>
             let installed_keys =
               fst ` set (filter (\<lambda>(plugin_key, installs). installs \<noteq> []) (installed_plugins self))
             in installed_tuples (installed_plugins self)
                @ concat (map (marketplace_tuples fs installed_keys) (known_marketplaces self))))"

section \<open>The engine and its exit status\<close>

record extends_plugin =
  ext_dependencies :: "(string \<times> string) list"
  ext_optional_dependencies :: "(string \<times> string) list"
  ext_system_dependencies :: "(string \<times> string) list"
  ext_optional_system_dependencies :: "(string \<times> string) list"

definition plugin_dep_results ::
  "DependencyChecker \<Rightarrow> string \<Rightarrow> (string \<times> string) list \<Rightarrow> DependencyResult list" where
  "plugin_dep_results self plugin_key deps =
     map (\<lambda>(dep_name, dep_version).
            case parse_plugin_key dep_name of
              (dep_plugin, dep_mkt) \<Rightarrow>
                check_plugin_dependency self dep_plugin
                  (if dep_mkt = [] then None else Some dep_mkt) dep_version plugin_key) deps"

definition system_dep_results ::
  "system_env \<Rightarrow> string \<Rightarrow> (string \<times> string) list \<Rightarrow> DependencyResult list" where
  "system_dep_results env plugin_key deps =
     map (\<lambda>(cmd, version). check_system_dependency env cmd version plugin_key) deps"

definition check_one ::
  "system_env \<Rightarrow> (string \<Rightarrow> extends_plugin option) \<Rightarrow> DependencyChecker
     \<Rightarrow> CheckResult \<Rightarrow> plugin_tuple \<Rightarrow> CheckResult" where
  \<comment> \<open>one turn of the loop of \<open>check_dependencies\<close>\<close>
  "check_one env load_extends_plugin self result t =
     (case t of
        (plugin_key, install_path, mkt) \<Rightarrow>
          if install_path = [] then result
          else
            (case load_extends_plugin install_path of
               None \<Rightarrow> result
             | Some extends \<Rightarrow>
                 result \<lparr>
                   dependencies := dependencies result
                     @ plugin_dep_results self plugin_key (ext_dependencies extends),
                   optional_dependencies := optional_dependencies result
                     @ plugin_dep_results self plugin_key (ext_optional_dependencies extends),
                   system_dependencies := system_dependencies result
                     @ system_dep_results env plugin_key (ext_system_dependencies extends),
                   optional_system_dependencies := optional_system_dependencies result
                     @ system_dep_results env plugin_key (ext_optional_system_dependencies extends) \<rparr>))"

definition check_dependencies ::
  "file_system \<Rightarrow> system_env \<Rightarrow> (string \<Rightarrow> extends_plugin option) \<Rightarrow> DependencyChecker
     \<Rightarrow> scope \<Rightarrow> string option \<Rightarrow> CheckResult" where
  "check_dependencies fs env load_extends_plugin self sc specific_plugin =
     foldl (check_one env load_extends_plugin self)
       \<lparr> checked_scope = sc, checked_plugin = specific_plugin, dependencies = [],
         optional_dependencies = [], system_dependencies = [], optional_system_dependencies = [] \<rparr>
       (get_plugins_to_check fs self sc specific_plugin)"

definition exit_status :: "CheckResult \<Rightarrow> int" where
  \<comment> \<open>the value \<open>main\<close> returns, which \<open>sys.exit\<close> makes the exit code\<close>
  "exit_status result =
     (let has_invalid = list_ex (\<lambda>d. \<not> valid d) (dependencies result);
          has_invalid_sys = list_ex (\<lambda>d. \<not> valid d) (system_dependencies result)
      in if has_invalid \<or> has_invalid_sys then 1 else 0)"

section \<open>Stripping\<close>

lemma rstrip_Nil_iff: "rstrip p s = [] \<longleftrightarrow> (\<forall>x\<in>set s. p x)"
  by (simp add: rstrip_def dropWhile_eq_Nil_conv)

lemma rstrip_Cons: "rstrip p (c # s) = (if p c \<and> rstrip p s = [] then [] else c # rstrip p s)"
  by (auto simp add: rstrip_def dropWhile_append dropWhile_eq_Nil_conv)

lemma rstrip_idem: "rstrip p (rstrip p s) = rstrip p s"
  by (simp add: rstrip_def)

lemma lstrip_idem: "lstrip p (lstrip p s) = lstrip p s"
  by (simp add: lstrip_def)

lemma lstrip_rstrip: "lstrip p (rstrip p s) = rstrip p (lstrip p s)"
proof (induction s)
  case Nil
  show ?case by (simp add: lstrip_def rstrip_def)
next
  case (Cons c s)
  show ?case
  proof (cases "p c")
    case True
    show ?thesis
    proof (cases "rstrip p s = []")
      case True
      then have "\<forall>x\<in>set s. p x" by (simp add: rstrip_Nil_iff)
      then have "lstrip p s = []" by (simp add: lstrip_def)
      then have "lstrip p (c # s) = []" using \<open>p c\<close> by (simp add: lstrip_def)
      moreover have "rstrip p (c # s) = []" using True \<open>p c\<close> by (simp add: rstrip_Cons)
      moreover have "lstrip p [] = []" "rstrip p [] = []" by (simp_all add: lstrip_def rstrip_def)
      ultimately show ?thesis by simp
    next
      case False
      with \<open>p c\<close> Cons show ?thesis by (simp add: rstrip_Cons lstrip_def)
    qed
  next
    case False
    then show ?thesis by (simp add: rstrip_Cons lstrip_def)
  qed
qed

lemma strip_rstrip: "strip (rstrip is_space s) = strip s"
  by (simp add: strip_def lstrip_rstrip rstrip_idem)

lemma strip_idem: "strip (strip s) = strip s"
  by (simp add: strip_def lstrip_rstrip rstrip_idem lstrip_idem)

lemma strip_Cons_nonspace: "\<not> is_space c \<Longrightarrow> strip (c # s) = c # rstrip is_space s"
  by (simp add: strip_def lstrip_def rstrip_Cons)

lemma strip_no_leading: "lstrip is_space s = s \<Longrightarrow> strip s = rstrip is_space s"
  by (simp add: strip_def)

lemma Version_parse_empty: "Version_parse [] = None"
  by (simp add: Version_parse_def)

lemma semver_match_Nil: "semver_match [] = None"
  by (simp add: semver_match_def)

lemma Version_parse_strip: "Version_parse (strip s) = Version_parse s"
proof (cases "strip s = []")
  case True
  then show ?thesis
    by (simp add: Version_parse_def lstrip_def semver_match_Nil hex12_match_def)
next
  case False
  then have "s \<noteq> []" by (auto simp add: strip_def lstrip_def rstrip_def)
  with False show ?thesis by (simp add: Version_parse_def strip_idem)
qed

lemma caret_not_space: "\<not> is_space CHR ''^''"
  by (simp add: is_space_def)

lemma parse_caret: "parse_version_constraint (CHR ''^'' # r) = (''^'', strip r)"
proof -
  have s: "strip (CHR ''^'' # r) = CHR ''^'' # rstrip is_space r"
    by (rule strip_Cons_nonspace [OF caret_not_space])
  show ?thesis
    by (simp add: parse_version_constraint_def s operators_def startswith_def strip_rstrip)
qed

lemma satisfies_caret:
  assumes "Version_parse v = Some iv" and "Version_parse r = Some rv"
  shows "version_satisfies v (CHR ''^'' # r) = caret_ok iv rv"
  using assms by (simp add: version_satisfies_def parse_caret Version_parse_strip)

section \<open>The order on versions\<close>

lemma str_lt_irrefl: "\<not> str_lt a a"
  by (induction a) simp_all

lemma str_lt_cases: "str_lt a b \<or> a = b \<or> str_lt b a"
proof (induction a b rule: str_lt.induct)
  case (4 x xs y ys)
  have "(of_char x :: nat) < of_char y \<or> x = y \<or> (of_char y :: nat) < of_char x"
    by (metis linorder_neqE_nat of_char_eq_iff)
  with 4 show ?case by auto
qed simp_all

lemma str_lt_asym: "str_lt a b \<Longrightarrow> \<not> str_lt b a"
  by (induction a b rule: str_lt.induct) auto

lemma str_lt_trans: "str_lt a b \<Longrightarrow> str_lt b c \<Longrightarrow> str_lt a c"
proof (induction a b arbitrary: c rule: str_lt.induct)
  case (2 y ys)
  then show ?case by (cases c) simp_all
next
  case (4 x xs y ys)
  then show ?case by (cases c) auto
qed simp_all

lemma tuple_lt_irrefl: "\<not> tuple_lt x x"
  by (cases x) (simp add: tuple_lt_def)

lemma tuple_lt_cases: "tuple_lt x y \<or> x = y \<or> tuple_lt y x"
  by (cases x; cases y) (simp add: tuple_lt_def, linarith)

lemma tuple_lt_asym: "tuple_lt x y \<Longrightarrow> \<not> tuple_lt y x"
  by (cases x; cases y) (simp add: tuple_lt_def, linarith)

lemma tuple_lt_trans: "tuple_lt x y \<Longrightarrow> tuple_lt y z \<Longrightarrow> tuple_lt x z"
  by (cases x; cases y; cases z) (simp add: tuple_lt_def, linarith)

lemma pre_lt_irrefl: "\<not> pre_lt p p"
  by (simp add: pre_lt_def str_lt_irrefl)

lemma pre_lt_cases: "pre_lt p q \<or> p = q \<or> pre_lt q p"
  using str_lt_cases [of p q] by (cases "p = []"; cases "q = []") (simp_all add: pre_lt_def)

lemma pre_lt_asym: "pre_lt p q \<Longrightarrow> \<not> pre_lt q p"
  using str_lt_asym [of p q] by (cases "p = []"; cases "q = []") (simp_all add: pre_lt_def)

lemma pre_lt_trans: "pre_lt p q \<Longrightarrow> pre_lt q r \<Longrightarrow> pre_lt p r"
  using str_lt_trans [of p q r]
  by (cases "p = []"; cases "q = []"; cases "r = []") (simp_all add: pre_lt_def str_lt_irrefl)

lemma Version_lt_iff:
  "Version_lt a b \<longleftrightarrow>
     tuple_lt (major a, minor a, patch a) (major b, minor b, patch b)
     \<or> ((major a, minor a, patch a) = (major b, minor b, patch b)
         \<and> pre_lt (prerelease a) (prerelease b))"
proof (cases "(major a, minor a, patch a) = (major b, minor b, patch b)")
  case True
  then show ?thesis
    using tuple_lt_irrefl [of "(major b, minor b, patch b)"]
    by (simp add: Version_lt_def pre_lt_def)
next
  case False
  then show ?thesis by (auto simp add: Version_lt_def)
qed

lemma Version_eq_iff:
  "Version_eq a b \<longleftrightarrow>
     (major a, minor a, patch a) = (major b, minor b, patch b) \<and> prerelease a = prerelease b"
  by (simp add: Version_eq_def)

lemma Version_lt_cases: "Version_lt a b \<or> Version_eq a b \<or> Version_lt b a"
  using tuple_lt_cases [of "(major a, minor a, patch a)" "(major b, minor b, patch b)"]
    pre_lt_cases [of "prerelease a" "prerelease b"]
  unfolding Version_lt_iff Version_eq_iff by metis

lemma Version_lt_asym: "Version_lt a b \<Longrightarrow> \<not> Version_lt b a"
  using tuple_lt_asym [of "(major a, minor a, patch a)" "(major b, minor b, patch b)"]
    pre_lt_asym [of "prerelease a" "prerelease b"]
    tuple_lt_irrefl [of "(major a, minor a, patch a)"]
  unfolding Version_lt_iff by metis

lemma Version_lt_not_eq: "Version_lt a b \<Longrightarrow> \<not> Version_eq a b"
  using tuple_lt_irrefl [of "(major a, minor a, patch a)"] pre_lt_irrefl [of "prerelease a"]
  unfolding Version_lt_iff Version_eq_iff by metis

lemma Version_eq_sym: "Version_eq a b \<Longrightarrow> Version_eq b a"
  by (simp add: Version_eq_def)

lemma Version_lt_trans: "Version_lt a b \<Longrightarrow> Version_lt b c \<Longrightarrow> Version_lt a c"
  using tuple_lt_trans [of "(major a, minor a, patch a)" "(major b, minor b, patch b)" "(major c, minor c, patch c)"]
    pre_lt_trans [of "prerelease a" "prerelease b" "prerelease c"]
  unfolding Version_lt_iff by metis

section \<open>The claims about versions and constraints\<close>

text \<open>
  Claim C1. When the installed string and the required string both parse,
  \<open>version_satisfies v ("^" + R)\<close> holds exactly when the installed version is at least
  the required one and agrees with it up to its leftmost nonzero component: on major if
  the required major is not 0; else on major 0 and minor if the required minor is not 0;
  else on major 0, minor 0 and patch. The four examples of the specification follow.
\<close>

theorem C1_caret:
  assumes "Version_parse v = Some iv" and "Version_parse r = Some rv"
  shows "(version_satisfies v (''^'' @ r) \<longleftrightarrow>
            Version_ge iv rv
            \<and> (major rv \<noteq> 0 \<longrightarrow> major iv = major rv)
            \<and> (major rv = 0 \<and> minor rv \<noteq> 0 \<longrightarrow> major iv = 0 \<and> minor iv = minor rv)
            \<and> (major rv = 0 \<and> minor rv = 0 \<longrightarrow>
                 major iv = 0 \<and> minor iv = 0 \<and> patch iv = patch rv))
         \<and> version_satisfies ''1.9.9'' ''^1.2.3''
         \<and> \<not> version_satisfies ''2.0.0'' ''^1.2.3''
         \<and> version_satisfies ''0.2.9'' ''^0.2.3''
         \<and> \<not> version_satisfies ''0.3.0'' ''^0.2.3''"
proof -
  have "version_satisfies v (''^'' @ r) = caret_ok iv rv"
    using satisfies_caret [OF assms] by simp
  then have general: "version_satisfies v (''^'' @ r) \<longleftrightarrow>
            Version_ge iv rv
            \<and> (major rv \<noteq> 0 \<longrightarrow> major iv = major rv)
            \<and> (major rv = 0 \<and> minor rv \<noteq> 0 \<longrightarrow> major iv = 0 \<and> minor iv = minor rv)
            \<and> (major rv = 0 \<and> minor rv = 0 \<longrightarrow>
                 major iv = 0 \<and> minor iv = 0 \<and> patch iv = patch rv)"
    by (auto simp add: caret_ok_def Version_ge_def)
  have e1: "version_satisfies ''1.9.9'' ''^1.2.3''" by code_simp
  have e2: "\<not> version_satisfies ''2.0.0'' ''^1.2.3''" by code_simp
  have e3: "version_satisfies ''0.2.9'' ''^0.2.3''" by code_simp
  have e4: "\<not> version_satisfies ''0.3.0'' ''^0.2.3''" by code_simp
  show ?thesis by (intro conjI general e1 e2 e3 e4)
qed

theorem C1_caret_witness:
  "Version_parse ''0.2.9'' = Some \<lparr>major = 0, minor = 2, patch = 9, prerelease = [], build = []\<rparr>
   \<and> Version_parse ''0.2.3'' = Some \<lparr>major = 0, minor = 2, patch = 3, prerelease = [], build = []\<rparr>
   \<and> version_satisfies ''0.2.9'' ''^0.2.3''
   \<and> Version_ge \<lparr>major = 0, minor = 2, patch = 9, prerelease = [], build = []\<rparr>
                 \<lparr>major = 0, minor = 2, patch = 3, prerelease = [], build = []\<rparr>"
proof -
  have p1: "Version_parse ''0.2.9'' = Some \<lparr>major = 0, minor = 2, patch = 9, prerelease = [], build = []\<rparr>"
    by code_simp
  have p2: "Version_parse ''0.2.3'' = Some \<lparr>major = 0, minor = 2, patch = 3, prerelease = [], build = []\<rparr>"
    by code_simp
  from C1_caret [OF p1 p2] p1 p2 show ?thesis
    by (simp add: Version_ge_def Version_lt_def tuple_lt_def)
qed

text \<open>
  The model with the raising branch and the one without agree wherever the code returns,
  and there the three fail-open returns of \<open>version_satisfies\<close> are as the comments in
  the code say: a \<open>*\<close> constraint, an installed string that does not parse, and a
  constraint whose version does not parse each give true.
\<close>

lemma to_int_Inr: "to_int d = Inr n \<Longrightarrow> n = int_of_digits d"
  by (simp add: to_int_def split: if_splits)

lemma to_int_or_0_Inr:
  "to_int_or_0 g = Inr n \<Longrightarrow> n = (case g of None \<Rightarrow> 0 | Some d \<Rightarrow> int_of_digits d)"
  by (auto simp add: to_int_or_0_def dest: to_int_Inr split: option.splits)

lemma Version_parse_raising_agrees:
  assumes "Version_parse_raising s = Inr v"
  shows "Version_parse s = v"
proof (cases "s = []")
  case True
  with assms show ?thesis by (simp add: Version_parse_raising_def Version_parse_def)
next
  case ne: False
  let ?t = "lstrip (\<lambda>c. c = CHR ''v'') (strip s)"
  show ?thesis
  proof (cases "hex12_match ?t")
    case True
    with assms ne show ?thesis by (simp add: Version_parse_raising_def Version_parse_def)
  next
    case hex: False
    show ?thesis
    proof (cases "semver_match ?t")
      case None
      with assms ne hex show ?thesis by (simp add: Version_parse_raising_def Version_parse_def)
    next
      case (Some g)
      obtain g1 g2 g3 g4 g5 where g: "g = (g1, g2, g3, g4, g5)" by (rule prod_cases5)
      from assms ne hex Some g obtain ma mi pa where
        i1: "to_int g1 = Inr ma" and i2: "to_int_or_0 g2 = Inr mi" and i3: "to_int_or_0 g3 = Inr pa"
        and v: "v = Some \<lparr> major = ma, minor = mi, patch = pa,
                    prerelease = (case g4 of None \<Rightarrow> [] | Some p \<Rightarrow> p),
                    build = (case g5 of None \<Rightarrow> [] | Some b \<Rightarrow> b) \<rparr>"
        by (auto simp add: Version_parse_raising_def split: sum.splits)
      from ne hex Some g v to_int_Inr [OF i1] to_int_or_0_Inr [OF i2] to_int_or_0_Inr [OF i3]
      show ?thesis
        by (simp add: Version_parse_def)
    qed
  qed
qed

lemma version_satisfies_raising_agrees:
  assumes "version_satisfies_raising i c = Inr b"
  shows "version_satisfies i c = b"
proof (cases "c = ''*''")
  case True
  with assms show ?thesis by (simp add: version_satisfies_raising_def version_satisfies_def)
next
  case star: False
  from assms star obtain vi where vi: "Version_parse_raising i = Inr vi"
    by (cases "Version_parse_raising i") (simp_all add: version_satisfies_raising_def)
  then have pi: "Version_parse i = vi" by (rule Version_parse_raising_agrees)
  show ?thesis
  proof (cases vi)
    case None
    with assms star vi pi show ?thesis
      by (simp add: version_satisfies_raising_def version_satisfies_def)
  next
    case (Some installed)
    obtain operator version_str where pc: "parse_version_constraint c = (operator, version_str)"
      by (cases "parse_version_constraint c")
    show ?thesis
    proof (cases "operator = ''*''")
      case True
      with assms star vi pi Some pc show ?thesis
        by (simp add: version_satisfies_raising_def version_satisfies_def)
    next
      case op: False
      from assms star vi Some pc op obtain vr where vr: "Version_parse_raising version_str = Inr vr"
        by (cases "Version_parse_raising version_str") (simp_all add: version_satisfies_raising_def)
      then have pr: "Version_parse version_str = vr" by (rule Version_parse_raising_agrees)
      from assms star vi pi Some pc op vr pr show ?thesis
        by (cases vr) (auto simp add: version_satisfies_raising_def version_satisfies_def)
    qed
  qed
qed

lemma fail_open_when_returning:
  "version_satisfies_raising i ''*'' = Inr True
   \<and> (Version_parse_raising i = Inr None \<longrightarrow> version_satisfies_raising i c = Inr True)
   \<and> (Version_parse_raising i = Inr (Some v)
        \<and> Version_parse_raising (snd (parse_version_constraint c)) = Inr None \<longrightarrow>
        version_satisfies_raising i c = Inr True)"
  by (simp add: version_satisfies_raising_def split: prod.split)

lemma zero_is_digit: "is_digit CHR ''0''"
  by (simp add: is_digit_def)

lemma zero_not_space: "\<not> is_space CHR ''0''"
  by (simp add: is_space_def)

lemma strip_zeros: "strip (replicate n CHR ''0'') = replicate n CHR ''0''"
  by (simp add: strip_def lstrip_def rstrip_def zero_not_space)

lemma semver_match_zeros:
  "0 < n \<Longrightarrow> semver_match (replicate n CHR ''0'') = Some (replicate n CHR ''0'', None, None, None, None)"
  by (simp add: semver_match_def zero_is_digit opt_dot_digits_def opt_tagged_def at_end_def)

lemma zeros_not_newline: "replicate m CHR ''0'' \<noteq> [CHR 0x0A]"
  by (cases m) simp_all

lemma hex12_match_zeros: "12 < n \<Longrightarrow> \<not> hex12_match (replicate n CHR ''0'')"
  by (simp add: hex12_match_def at_end_def zeros_not_newline)

lemma Version_parse_raising_zeros:
  assumes "int_max_str_digits < n"
  shows "Version_parse_raising (replicate n CHR ''0'') = Inl ValueError"
proof -
  from assms have n: "12 < n" "0 < n" by (simp_all add: int_max_str_digits_def)
  have t: "lstrip (\<lambda>c. c = CHR ''v'') (strip (replicate n CHR ''0'')) = replicate n CHR ''0''"
    by (simp add: strip_zeros lstrip_def)
  from n have ne: "replicate n CHR ''0'' \<noteq> []" by simp
  have i: "to_int (replicate n CHR ''0'') = Inl ValueError"
    using assms by (simp add: to_int_def)
  show ?thesis
    unfolding Version_parse_raising_def t Let_def
    using ne hex12_match_zeros [OF n(1)] semver_match_zeros [OF n(2)] i
    by simp
qed

text \<open>
  Claim C2 does not hold of the code for every pair of strings. The code means to fail
  open on a version it cannot parse ("Return True to be permissive", "Can't parse
  constraint, assume satisfied"), but an installed string of 4301 zeros matches the
  version pattern and \<open>int\<close> then raises \<open>ValueError\<close>, which nothing catches: with the
  constraint \<open>>=one.two\<close>, whose version part does not parse, \<open>version_satisfies\<close>
  raises where the claim has it return true.
\<close>

theorem C2_overlong_digits_raise:
  "version_satisfies_raising (replicate 4301 CHR ''0'') ''>=one.two'' = Inl ValueError
   \<and> Version_parse_raising (snd (parse_version_constraint ''>=one.two'')) = Inr None"
proof -
  have "Version_parse_raising (replicate 4301 CHR ''0'') = Inl ValueError"
    by (rule Version_parse_raising_zeros) (simp add: int_max_str_digits_def)
  then have 1: "version_satisfies_raising (replicate 4301 CHR ''0'') ''>=one.two'' = Inl ValueError"
    by (simp add: version_satisfies_raising_def)
  have 2: "Version_parse_raising (snd (parse_version_constraint ''>=one.two'')) = Inr None"
    by code_simp
  from 1 2 show ?thesis by (rule conjI)
qed

text \<open>
  Claim C7. The comparisons of \<open>Version\<close> order versions by (major, minor, patch) first,
  as tuples; on equal triples a version with a prerelease is strictly below one without,
  and two prereleases compare as strings. The order is total: of \<open><\<close>, \<open>==\<close> and the
  converse \<open><\<close> exactly one holds, \<open><\<close> is transitive, and \<open><=\<close>, \<open>>\<close>, \<open>>=\<close> are the
  comparisons that follow from them. The build field plays no part in any of the five:
  versions that differ in build alone are equal.
\<close>

theorem C7_version_ordering:
  "((major a, minor a, patch a) \<noteq> (major b, minor b, patch b) \<longrightarrow>
      Version_lt a b =
        (major a < major b \<or> (major a = major b \<and>
          (minor a < minor b \<or> (minor a = minor b \<and> patch a < patch b)))))
   \<and> ((major a, minor a, patch a) = (major b, minor b, patch b) \<longrightarrow>
        (prerelease a \<noteq> [] \<and> prerelease b = [] \<longrightarrow> Version_lt a b \<and> \<not> Version_lt b a)
        \<and> (prerelease a \<noteq> [] \<and> prerelease b \<noteq> [] \<longrightarrow>
             Version_lt a b = str_lt (prerelease a) (prerelease b))
        \<and> (prerelease a = [] \<and> prerelease b = [] \<longrightarrow> Version_eq a b))
   \<and> (Version_lt a b \<or> Version_eq a b \<or> Version_lt b a)
   \<and> \<not> (Version_lt a b \<and> Version_eq a b)
   \<and> \<not> (Version_lt a b \<and> Version_lt b a)
   \<and> \<not> (Version_eq a b \<and> Version_lt b a)
   \<and> (Version_lt a b \<and> Version_lt b c \<longrightarrow> Version_lt a c)
   \<and> Version_le a b = (Version_lt a b \<or> Version_eq a b)
   \<and> Version_gt a b = Version_lt b a
   \<and> Version_ge a b = (Version_lt b a \<or> Version_eq a b)
   \<and> Version_lt (a\<lparr>build := x\<rparr>) (b\<lparr>build := y\<rparr>) = Version_lt a b
   \<and> Version_le (a\<lparr>build := x\<rparr>) (b\<lparr>build := y\<rparr>) = Version_le a b
   \<and> Version_gt (a\<lparr>build := x\<rparr>) (b\<lparr>build := y\<rparr>) = Version_gt a b
   \<and> Version_ge (a\<lparr>build := x\<rparr>) (b\<lparr>build := y\<rparr>) = Version_ge a b
   \<and> Version_eq (a\<lparr>build := x\<rparr>) (b\<lparr>build := y\<rparr>) = Version_eq a b
   \<and> Version_eq (a\<lparr>build := x\<rparr>) a"
proof -
  have triple: "(major a, minor a, patch a) \<noteq> (major b, minor b, patch b) \<longrightarrow>
      Version_lt a b =
        (major a < major b \<or> (major a = major b \<and>
          (minor a < minor b \<or> (minor a = minor b \<and> patch a < patch b))))"
    by (auto simp add: Version_lt_def tuple_lt_def)
  have pre: "(major a, minor a, patch a) = (major b, minor b, patch b) \<longrightarrow>
        (prerelease a \<noteq> [] \<and> prerelease b = [] \<longrightarrow> Version_lt a b \<and> \<not> Version_lt b a)
        \<and> (prerelease a \<noteq> [] \<and> prerelease b \<noteq> [] \<longrightarrow>
             Version_lt a b = str_lt (prerelease a) (prerelease b))
        \<and> (prerelease a = [] \<and> prerelease b = [] \<longrightarrow> Version_eq a b)"
    by (simp add: Version_lt_def Version_eq_def)
  have total: "Version_lt a b \<or> Version_eq a b \<or> Version_lt b a"
    by (rule Version_lt_cases)
  have excl1: "\<not> (Version_lt a b \<and> Version_eq a b)"
    using Version_lt_not_eq by blast
  have excl2: "\<not> (Version_lt a b \<and> Version_lt b a)"
    using Version_lt_asym by blast
  have excl3: "\<not> (Version_eq a b \<and> Version_lt b a)"
    using Version_lt_not_eq [of b a] Version_eq_sym by blast
  have trans: "Version_lt a b \<and> Version_lt b c \<longrightarrow> Version_lt a c"
    using Version_lt_trans by blast
  have le: "Version_le a b = (Version_lt a b \<or> Version_eq a b)"
    by (simp add: Version_le_def)
  have gt: "Version_gt a b = Version_lt b a"
    unfolding Version_gt_def Version_le_def using total excl2 excl3 by blast
  have ge: "Version_ge a b = (Version_lt b a \<or> Version_eq a b)"
    unfolding Version_ge_def using total excl1 excl2 by blast
  have b_lt: "Version_lt (a\<lparr>build := x\<rparr>) (b\<lparr>build := y\<rparr>) = Version_lt a b"
    by (simp add: Version_lt_def)
  have b_eq: "Version_eq (a\<lparr>build := x\<rparr>) (b\<lparr>build := y\<rparr>) = Version_eq a b"
    by (simp add: Version_eq_def)
  have b_le: "Version_le (a\<lparr>build := x\<rparr>) (b\<lparr>build := y\<rparr>) = Version_le a b"
    by (simp only: Version_le_def b_lt b_eq)
  have b_gt: "Version_gt (a\<lparr>build := x\<rparr>) (b\<lparr>build := y\<rparr>) = Version_gt a b"
    by (simp only: Version_gt_def b_le)
  have b_ge: "Version_ge (a\<lparr>build := x\<rparr>) (b\<lparr>build := y\<rparr>) = Version_ge a b"
    by (simp only: Version_ge_def b_lt)
  have b_same: "Version_eq (a\<lparr>build := x\<rparr>) a"
    by (simp add: Version_eq_def)
  show ?thesis
    by (intro conjI triple pre total excl1 excl2 excl3 trans le gt ge b_lt b_le b_gt b_ge b_eq b_same)
qed

theorem C7_version_ordering_witness:
  "Version_lt \<lparr>major = 1, minor = 2, patch = 3, prerelease = ''alpha'', build = ''x''\<rparr>
              \<lparr>major = 1, minor = 2, patch = 3, prerelease = [], build = ''y''\<rparr>
   \<and> \<not> Version_lt \<lparr>major = 1, minor = 2, patch = 3, prerelease = [], build = ''y''\<rparr>
                  \<lparr>major = 1, minor = 2, patch = 3, prerelease = ''alpha'', build = ''x''\<rparr>
   \<and> Version_lt \<lparr>major = 1, minor = 2, patch = 3, prerelease = ''alpha'', build = ''x''\<rparr>
                \<lparr>major = 1, minor = 2, patch = 3, prerelease = ''beta'', build = []\<rparr>
   \<and> Version_lt \<lparr>major = 1, minor = 2, patch = 3, prerelease = ''beta'', build = []\<rparr>
                \<lparr>major = 1, minor = 10, patch = 0, prerelease = ''rc'', build = []\<rparr>
   \<and> Version_lt \<lparr>major = 1, minor = 2, patch = 3, prerelease = ''alpha'', build = ''x''\<rparr>
                \<lparr>major = 1, minor = 10, patch = 0, prerelease = ''rc'', build = []\<rparr>"
  using
    C7_version_ordering [of
      "\<lparr>major = 1, minor = 2, patch = 3, prerelease = ''alpha'', build = ''x''\<rparr>"
      "\<lparr>major = 1, minor = 2, patch = 3, prerelease = [], build = ''y''\<rparr>"
      "\<lparr>major = 1, minor = 2, patch = 3, prerelease = [], build = ''y''\<rparr>" "[]" "[]"]
    C7_version_ordering [of
      "\<lparr>major = 1, minor = 2, patch = 3, prerelease = ''alpha'', build = ''x''\<rparr>"
      "\<lparr>major = 1, minor = 2, patch = 3, prerelease = ''beta'', build = []\<rparr>"
      "\<lparr>major = 1, minor = 10, patch = 0, prerelease = ''rc'', build = []\<rparr>" "[]" "[]"]
    C7_version_ordering [of
      "\<lparr>major = 1, minor = 2, patch = 3, prerelease = ''beta'', build = []\<rparr>"
      "\<lparr>major = 1, minor = 10, patch = 0, prerelease = ''rc'', build = []\<rparr>"
      "\<lparr>major = 1, minor = 10, patch = 0, prerelease = ''rc'', build = []\<rparr>" "[]" "[]"]
  by simp

text \<open>
  Claim C9. Parsing \<open>1.2.3-beta+build5\<close> gives major 1, minor 2, patch 3, prerelease
  \<open>beta\<close> and build \<open>build5\<close>, and \<open>str\<close> of that version is the string again.
\<close>

theorem C9_parse_str_roundtrip:
  "Version_parse ''1.2.3-beta+build5''
     = Some \<lparr>major = 1, minor = 2, patch = 3, prerelease = ''beta'', build = ''build5''\<rparr>
   \<and> Version_str \<lparr>major = 1, minor = 2, patch = 3, prerelease = ''beta'', build = ''build5''\<rparr>
     = ''1.2.3-beta+build5''
   \<and> map_option Version_str (Version_parse ''1.2.3-beta+build5'') = Some ''1.2.3-beta+build5''"
  by code_simp

text \<open>
  Claim C10 as stated fails on a string that begins with a space: the \<open>v\<close> put in front
  of it keeps \<open>strip\<close> from removing the space, and the pattern then rejects it.
\<close>

theorem C10_counterexample:
  "Version_parse (''v'' @ '' 1.2.3'') \<noteq> Version_parse '' 1.2.3''"
  by code_simp

text \<open>
  Claim C10, as the code has it. \<open>Version.parse\<close> strips surrounding whitespace first and
  leading \<open>v\<close> characters second, so \<open>parse("v" + s) = parse(s)\<close> holds for every \<open>s\<close>
  that does not begin with whitespace; \<open>v1.2.3\<close> parses to 1.2.3, several \<open>v\<close> are all
  removed, and the twelve-hex-character rejection sees the string after the stripping
  (\<open>v123456789012\<close> is rejected).
\<close>

theorem C10_leading_v:
  "(lstrip is_space s = s \<longrightarrow> Version_parse (''v'' @ s) = Version_parse s)
   \<and> Version_parse ''v1.2.3'' = Some \<lparr>major = 1, minor = 2, patch = 3, prerelease = [], build = []\<rparr>
   \<and> Version_parse ''vv1.2.3'' = Version_parse ''1.2.3''
   \<and> Version_parse ''v123456789012'' = None"
proof -
  have general: "lstrip is_space s = s \<longrightarrow> Version_parse (''v'' @ s) = Version_parse s"
  proof
    assume nolead: "lstrip is_space s = s"
    show "Version_parse (''v'' @ s) = Version_parse s"
    proof (cases s)
      case Nil
      have "Version_parse ''v'' = None" by code_simp
      with Nil show ?thesis by (simp add: Version_parse_empty)
    next
      case (Cons c r)
      have v: "\<not> is_space CHR ''v''" by (simp add: is_space_def)
      have 1: "strip (CHR ''v'' # s) = CHR ''v'' # rstrip is_space s"
        by (rule strip_Cons_nonspace [OF v])
      have 2: "strip s = rstrip is_space s"
        by (rule strip_no_leading [OF nolead])
      from Cons have ne: "s \<noteq> []" by simp
      then show ?thesis
        by (simp add: Version_parse_def 1 2 lstrip_def)
    qed
  qed
  have e1: "Version_parse ''v1.2.3'' = Some \<lparr>major = 1, minor = 2, patch = 3, prerelease = [], build = []\<rparr>"
    by code_simp
  have e2: "Version_parse ''vv1.2.3'' = Version_parse ''1.2.3''" by code_simp
  have e3: "Version_parse ''v123456789012'' = None" by code_simp
  show ?thesis by (intro conjI general e1 e2 e3)
qed

theorem C10_leading_v_witness:
  "lstrip is_space ''1.2.3 '' = ''1.2.3 ''
   \<and> Version_parse (''v'' @ ''1.2.3 '') = Version_parse ''1.2.3 ''
   \<and> Version_parse ''1.2.3 '' = Some \<lparr>major = 1, minor = 2, patch = 3, prerelease = [], build = []\<rparr>"
proof -
  have h: "lstrip is_space ''1.2.3 '' = ''1.2.3 ''" by code_simp
  have p: "Version_parse ''1.2.3 '' = Some \<lparr>major = 1, minor = 2, patch = 3, prerelease = [], build = []\<rparr>"
    by code_simp
  from C10_leading_v [of "''1.2.3 ''"] h p show ?thesis by simp
qed

section \<open>The claims about one dependency and the exit status\<close>

lemma satisfies_star: "version_satisfies v ''*''"
  by (simp add: version_satisfies_def)

lemma satisfies_empty_installed: "version_satisfies [] c"
  by (simp add: version_satisfies_def Version_parse_empty)

lemma parse_constraint_empty: "parse_version_constraint [] = (''='', [])"
  by code_simp

lemma satisfies_empty_constraint: "version_satisfies v []"
  by (simp add: version_satisfies_def parse_constraint_empty Version_parse_empty split: option.split)

lemma probe_flags_available: "fst (probe_flags run flags) = True"
  by (induction flags) (simp_all split: flag_attempt.split option.split)

lemma check_system_command_available: "fst (check_system_command env cmd) = which env cmd"
  by (simp add: check_system_command_def probe_flags_available)

text \<open>
  Claim C3. The exit status is 0 exactly when no result in the required plugin bucket
  and none in the required system bucket is invalid, and 1 otherwise; replacing the two
  optional buckets by anything leaves it unchanged.
\<close>

theorem C3_exit_status:
  "exit_status r =
     (if (\<forall>d \<in> set (dependencies r). valid d) \<and> (\<forall>d \<in> set (system_dependencies r). valid d)
      then 0 else 1)
   \<and> exit_status (r\<lparr>optional_dependencies := od, optional_system_dependencies := osd\<rparr>)
       = exit_status r"
  by (auto simp add: exit_status_def list_ex_iff)

theorem C3_exit_status_witness:
  "exit_status \<lparr> checked_scope = Enabled, checked_plugin = None,
      dependencies = [(new_DependencyResult (Some ''bar'') None None ''foo@m'' ''*'')\<lparr>valid := True\<rparr>],
      optional_dependencies = [new_DependencyResult (Some ''baz'') None None ''foo@m'' ''*''],
      system_dependencies = [(new_DependencyResult None (Some ''git'') None ''foo@m'' ''*'')\<lparr>valid := True\<rparr>],
      optional_system_dependencies = [new_DependencyResult None (Some ''rg'') None ''foo@m'' ''*''] \<rparr> = 0
   \<and> exit_status \<lparr> checked_scope = Enabled, checked_plugin = None,
      dependencies = [(new_DependencyResult (Some ''bar'') None None ''foo@m'' ''*'')\<lparr>valid := True\<rparr>],
      optional_dependencies = [],
      system_dependencies = [new_DependencyResult None (Some ''git'') None ''foo@m'' ''*''],
      optional_system_dependencies = [] \<rparr> = 1"
  using
    C3_exit_status [of "\<lparr> checked_scope = Enabled, checked_plugin = None,
      dependencies = [(new_DependencyResult (Some ''bar'') None None ''foo@m'' ''*'')\<lparr>valid := True\<rparr>],
      optional_dependencies = [new_DependencyResult (Some ''baz'') None None ''foo@m'' ''*''],
      system_dependencies = [(new_DependencyResult None (Some ''git'') None ''foo@m'' ''*'')\<lparr>valid := True\<rparr>],
      optional_system_dependencies = [new_DependencyResult None (Some ''rg'') None ''foo@m'' ''*''] \<rparr>" "[]" "[]"]
    C3_exit_status [of "\<lparr> checked_scope = Enabled, checked_plugin = None,
      dependencies = [(new_DependencyResult (Some ''bar'') None None ''foo@m'' ''*'')\<lparr>valid := True\<rparr>],
      optional_dependencies = [],
      system_dependencies = [new_DependencyResult None (Some ''git'') None ''foo@m'' ''*''],
      optional_system_dependencies = [] \<rparr>" "[]" "[]"]
  by (simp add: new_DependencyResult_def)

text \<open>
  Claim C6. For a system command, \<open>enabled\<close> equals \<open>installed\<close>, which says whether the
  command is on the path. A command that is not on the path is neither installed nor
  valid. A command on the path for which the probe found no version is valid under every
  constraint, and one with a version is valid exactly when \<open>version_satisfies\<close> accepts
  that version under the constraint.
\<close>

theorem C6_system_dependency:
  "enabled (check_system_dependency env cmd req dep) = installed (check_system_dependency env cmd req dep)
   \<and> installed (check_system_dependency env cmd req dep) = which env cmd
   \<and> installed_version (check_system_dependency env cmd req dep) = snd (check_system_command env cmd)
   \<and> (\<not> which env cmd \<longrightarrow>
        \<not> installed (check_system_dependency env cmd req dep)
        \<and> \<not> valid (check_system_dependency env cmd req dep))
   \<and> (which env cmd \<and> snd (check_system_command env cmd) = None \<longrightarrow>
        valid (check_system_dependency env cmd req dep))
   \<and> (which env cmd \<and> snd (check_system_command env cmd) = Some v \<longrightarrow>
        valid (check_system_dependency env cmd req dep) = version_satisfies v req)"
proof (cases "check_system_command env cmd")
  case (Pair is_available version)
  have av: "is_available = which env cmd"
    using check_system_command_available [of env cmd] Pair by simp
  show ?thesis
  proof (cases "which env cmd")
    case False
    with Pair av show ?thesis
      by (simp add: check_system_dependency_def new_DependencyResult_def)
  next
    case True
    show ?thesis
    proof (cases version)
      case None
      with Pair av True show ?thesis
        by (simp add: check_system_dependency_def new_DependencyResult_def truthy_def)
    next
      case (Some w)
      have "valid (check_system_dependency env cmd req dep) = version_satisfies w req"
        using Pair av True Some satisfies_star [of w] satisfies_empty_installed [of req]
          satisfies_empty_constraint [of w]
        by (auto simp add: check_system_dependency_def new_DependencyResult_def truthy_def
            str_or_empty_def Let_def)
      moreover have "enabled (check_system_dependency env cmd req dep)"
        "installed (check_system_dependency env cmd req dep)"
        "installed_version (check_system_dependency env cmd req dep) = Some w"
        using Pair av True Some
        by (simp_all add: check_system_dependency_def new_DependencyResult_def Let_def)
      ultimately show ?thesis using Pair True Some by simp
    qed
  qed
qed

theorem C6_system_dependency_witness:
  "which \<lparr>which = (\<lambda>c. c = ''git''),
          try_flag = (\<lambda>c f. if f = ''-version'' then Printed (Some ''2.39.1'') 0 else Failed)\<rparr> ''git''
   \<and> snd (check_system_command
        \<lparr>which = (\<lambda>c. c = ''git''),
         try_flag = (\<lambda>c f. if f = ''-version'' then Printed (Some ''2.39.1'') 0 else Failed)\<rparr> ''git'')
       = Some ''2.39.1''
   \<and> \<not> valid (check_system_dependency
        \<lparr>which = (\<lambda>c. c = ''git''),
         try_flag = (\<lambda>c f. if f = ''-version'' then Printed (Some ''2.39.1'') 0 else Failed)\<rparr>
        ''git'' ''>=2.40.0'' ''foo@m'')
   \<and> \<not> version_satisfies ''2.39.1'' ''>=2.40.0''
   \<and> \<not> installed (check_system_dependency
        \<lparr>which = (\<lambda>c. c = ''git''),
         try_flag = (\<lambda>c f. if f = ''-version'' then Printed (Some ''2.39.1'') 0 else Failed)\<rparr>
        ''rg'' ''*'' ''foo@m'')
   \<and> \<not> valid (check_system_dependency
        \<lparr>which = (\<lambda>c. c = ''git''),
         try_flag = (\<lambda>c f. if f = ''-version'' then Printed (Some ''2.39.1'') 0 else Failed)\<rparr>
        ''rg'' ''*'' ''foo@m'')
   \<and> snd (check_system_command \<lparr>which = (\<lambda>c. True), try_flag = (\<lambda>c f. Silent)\<rparr> ''ls'') = None
   \<and> valid (check_system_dependency \<lparr>which = (\<lambda>c. True), try_flag = (\<lambda>c f. Silent)\<rparr>
        ''ls'' ''>=9.0.0'' ''foo@m'')"
proof -
  have v: "snd (check_system_command
        \<lparr>which = (\<lambda>c. c = ''git''),
         try_flag = (\<lambda>c f. if f = ''-version'' then Printed (Some ''2.39.1'') 0 else Failed)\<rparr> ''git'')
       = Some ''2.39.1''"
    by (simp add: check_system_command_def version_flags_def)
  have n: "snd (check_system_command \<lparr>which = (\<lambda>c. True), try_flag = (\<lambda>c f. Silent)\<rparr> ''ls'') = None"
    by (simp add: check_system_command_def version_flags_def)
  have s: "\<not> version_satisfies ''2.39.1'' ''>=2.40.0''" by code_simp
  from v n s
    C6_system_dependency [of
      "\<lparr>which = (\<lambda>c. c = ''git''),
        try_flag = (\<lambda>c f. if f = ''-version'' then Printed (Some ''2.39.1'') 0 else Failed)\<rparr>"
      "''git''" "''>=2.40.0''" "''foo@m''" "''2.39.1''"]
    C6_system_dependency [of
      "\<lparr>which = (\<lambda>c. c = ''git''),
        try_flag = (\<lambda>c f. if f = ''-version'' then Printed (Some ''2.39.1'') 0 else Failed)\<rparr>"
      "''rg''" "''*''" "''foo@m''" "[]"]
    C6_system_dependency [of "\<lparr>which = (\<lambda>c. True), try_flag = (\<lambda>c f. Silent)\<rparr>"
      "''ls''" "''>=9.0.0''" "''foo@m''" "[]"]
  show ?thesis by simp
qed

lemma get_installed_plugin_info_enabled_update:
  "get_installed_plugin_info (self\<lparr>enabled_plugins := e\<rparr>) n m = get_installed_plugin_info self n m"
  by (simp add: get_installed_plugin_info_def exact_installed_def split: option.split list.split)

lemma search_installed_find:
  "search_installed ps n =
     (case find (\<lambda>(k, installs). fst (parse_plugin_key k) = n \<and> installs \<noteq> []) ps of
        Some (k, i # _) \<Rightarrow> Some i
      | _ \<Rightarrow> None)"
  by (induction ps n rule: search_installed.induct) (auto split: list.split)

lemma get_installed_plugin_info_registry:
  "get_installed_plugin_info self dp dm =
     (case (if truthy dm
            then (case map_of (installed_plugins self) (dp @ ''@'' @ str_or_empty dm) of
                    Some (i # _) \<Rightarrow> Some i
                  | _ \<Rightarrow> None)
            else None) of
        Some i \<Rightarrow> Some i
      | None \<Rightarrow>
          (case find (\<lambda>(k, installs). fst (parse_plugin_key k) = dp \<and> installs \<noteq> [])
                  (installed_plugins self) of
             Some (k, i # _) \<Rightarrow> Some i
           | _ \<Rightarrow> None))"
  unfolding get_installed_plugin_info_def exact_installed_def get_plugin_key_def
    search_installed_find
  by simp

lemma is_plugin_enabled_registry:
  "is_plugin_enabled self dp dm =
     (if truthy dm
      then (case map_of (enabled_plugins self) (dp @ ''@'' @ str_or_empty dm) of
              Some b \<Rightarrow> b
            | None \<Rightarrow> False)
      else (\<exists>(k, b) \<in> set (enabled_plugins self). fst (parse_plugin_key k) = dp \<and> b))"
  by (simp add: is_plugin_enabled_def dict_get_def get_plugin_key_def list_ex_iff)

text \<open>
  Claim C5 as stated fails: a dependency on \<open>bar@other\<close>, with \<open>bar\<close> installed from
  \<open>mkt\<close> only, is not installed under its key, yet the lookup falls back to the plugin
  of that name and the result is installed and valid.
\<close>

theorem C5_counterexample:
  "parse_plugin_key ''bar@other'' = (''bar'', ''other'')
   \<and> map_of (installed_plugins
        \<lparr>installed_plugins = [(''bar@mkt'', [[(''installPath'', ''/p/bar''), (''version'', ''1.5.0'')]])],
         enabled_plugins = [], known_marketplaces = []\<rparr>) ''bar@other'' = None
   \<and> installed (check_plugin_dependency
        \<lparr>installed_plugins = [(''bar@mkt'', [[(''installPath'', ''/p/bar''), (''version'', ''1.5.0'')]])],
         enabled_plugins = [], known_marketplaces = []\<rparr>
        ''bar'' (Some ''other'') ''>=1.0.0'' ''foo@m'')
   \<and> valid (check_plugin_dependency
        \<lparr>installed_plugins = [(''bar@mkt'', [[(''installPath'', ''/p/bar''), (''version'', ''1.5.0'')]])],
         enabled_plugins = [], known_marketplaces = []\<rparr>
        ''bar'' (Some ''other'') ''>=1.0.0'' ''foo@m'')"
  by code_simp

text \<open>
  Claim C5, as the code has it. The dependency is looked up in the installed registry
  under its exact key first, when a marketplace is given, and otherwise, or when that key
  has no install record, as the first installed plugin of that name in registry order,
  whatever its marketplace. When the lookup finds no record, or an empty one, the result
  is not installed and not valid, with the instruction to install as help. When it finds
  a record, the result is installed; its version is the record's; \<open>enabled\<close> is the flag
  of the exact key when a marketplace is given and else whether any enabled key has that
  name; \<open>valid\<close> is \<open>version_satisfies\<close> of the recorded version and the constraint, or
  true when no version is recorded, whatever the enabled flags are; and a valid but
  disabled one carries the help "installed but not enabled".
\<close>

theorem C5_plugin_dependency:
  "(let found =
          (case (if truthy dm
                 then (case map_of (installed_plugins self) (dp @ ''@'' @ str_or_empty dm) of
                         Some (j # _) \<Rightarrow> Some j
                       | _ \<Rightarrow> None)
                 else None) of
             Some j \<Rightarrow> Some j
           | None \<Rightarrow>
               (case find (\<lambda>(k, installs). fst (parse_plugin_key k) = dp \<and> installs \<noteq> [])
                       (installed_plugins self) of
                  Some (k, j # _) \<Rightarrow> Some j
                | _ \<Rightarrow> None));
        en =
          (if truthy dm
           then (case map_of (enabled_plugins self) (dp @ ''@'' @ str_or_empty dm) of
                   Some b \<Rightarrow> b
                 | None \<Rightarrow> False)
           else (\<exists>(k, b) \<in> set (enabled_plugins self). fst (parse_plugin_key k) = dp \<and> b));
        r = check_plugin_dependency self dp dm req dep
    in (found = None \<or> found = Some [] \<longrightarrow>
          \<not> installed r \<and> \<not> valid r
          \<and> help_text r =
              (if truthy dm
               then ''Plugin '' @ dp @ '' from '' @ str_or_empty dm
                    @ '' is not installed. Install with: claude plugin install '' @ dp
               else ''Plugin '' @ dp @ '' is not installed. Install with: claude plugin install '' @ dp))
       \<and> (found = Some i \<and> i \<noteq> [] \<longrightarrow>
          installed r
          \<and> installed_version r = map_of i ''version''
          \<and> enabled r = en
          \<and> valid r = (case map_of i ''version'' of None \<Rightarrow> True | Some v \<Rightarrow> version_satisfies v req)
          \<and> (valid r \<and> \<not> en \<longrightarrow> help_text r = ''Plugin '' @ dp @ '' is installed but not enabled'')))
   \<and> valid (check_plugin_dependency (self\<lparr>enabled_plugins := e\<rparr>) dp dm req dep)
       = valid (check_plugin_dependency self dp dm req dep)
   \<and> installed (check_plugin_dependency (self\<lparr>enabled_plugins := e\<rparr>) dp dm req dep)
       = installed (check_plugin_dependency self dp dm req dep)"
proof -
  let ?info = "get_installed_plugin_info self dp dm"
  let ?r = "check_plugin_dependency self dp dm req dep"
  have ok: "(if truthy iv then version_satisfies (str_or_empty iv) req else True)
      = (case iv of None \<Rightarrow> True | Some v \<Rightarrow> version_satisfies v req)" for iv
    using satisfies_empty_installed [of req]
    by (simp add: truthy_def str_or_empty_def split: option.split)
  have missing: "?info = None \<or> ?info = Some [] \<longrightarrow>
      \<not> installed ?r \<and> \<not> valid ?r
      \<and> help_text ?r =
          (if truthy dm
           then ''Plugin '' @ dp @ '' from '' @ str_or_empty dm
                @ '' is not installed. Install with: claude plugin install '' @ dp
           else ''Plugin '' @ dp @ '' is not installed. Install with: claude plugin install '' @ dp)"
    by (auto simp add: check_plugin_dependency_def new_DependencyResult_def Let_def info_truthy_def)
  have found: "?info = Some i \<and> i \<noteq> [] \<longrightarrow>
      installed ?r
      \<and> installed_version ?r = map_of i ''version''
      \<and> enabled ?r = is_plugin_enabled self dp dm
      \<and> valid ?r = (case map_of i ''version'' of None \<Rightarrow> True | Some v \<Rightarrow> version_satisfies v req)
      \<and> (valid ?r \<and> \<not> is_plugin_enabled self dp dm \<longrightarrow>
           help_text ?r = ''Plugin '' @ dp @ '' is installed but not enabled'')"
    using ok [of "map_of i ''version''"]
    by (auto simp add: check_plugin_dependency_def new_DependencyResult_def Let_def info_truthy_def
        info_or_empty_def)
  have frame_valid: "valid (check_plugin_dependency (self\<lparr>enabled_plugins := e\<rparr>) dp dm req dep)
       = valid ?r"
    by (simp add: check_plugin_dependency_def new_DependencyResult_def Let_def
        get_installed_plugin_info_enabled_update)
  have frame_installed: "installed (check_plugin_dependency (self\<lparr>enabled_plugins := e\<rparr>) dp dm req dep)
       = installed ?r"
    by (simp add: check_plugin_dependency_def new_DependencyResult_def Let_def
        get_installed_plugin_info_enabled_update)
  from missing found frame_valid frame_installed show ?thesis
    unfolding get_installed_plugin_info_registry is_plugin_enabled_registry Let_def
    by blast
qed

theorem C5_plugin_dependency_witness:
  "installed (check_plugin_dependency
        \<lparr>installed_plugins = [(''bar@mkt'', [[(''installPath'', ''/p/bar''), (''version'', ''1.5.0'')]])],
         enabled_plugins = [], known_marketplaces = []\<rparr>
        ''bar'' (Some ''mkt'') ''>=1.0.0'' ''foo@m'')
   \<and> installed_version (check_plugin_dependency
        \<lparr>installed_plugins = [(''bar@mkt'', [[(''installPath'', ''/p/bar''), (''version'', ''1.5.0'')]])],
         enabled_plugins = [], known_marketplaces = []\<rparr>
        ''bar'' (Some ''mkt'') ''>=1.0.0'' ''foo@m'') = Some ''1.5.0''
   \<and> valid (check_plugin_dependency
        \<lparr>installed_plugins = [(''bar@mkt'', [[(''installPath'', ''/p/bar''), (''version'', ''1.5.0'')]])],
         enabled_plugins = [], known_marketplaces = []\<rparr>
        ''bar'' (Some ''mkt'') ''>=1.0.0'' ''foo@m'')
   \<and> \<not> enabled (check_plugin_dependency
        \<lparr>installed_plugins = [(''bar@mkt'', [[(''installPath'', ''/p/bar''), (''version'', ''1.5.0'')]])],
         enabled_plugins = [], known_marketplaces = []\<rparr>
        ''bar'' (Some ''mkt'') ''>=1.0.0'' ''foo@m'')
   \<and> help_text (check_plugin_dependency
        \<lparr>installed_plugins = [(''bar@mkt'', [[(''installPath'', ''/p/bar''), (''version'', ''1.5.0'')]])],
         enabled_plugins = [], known_marketplaces = []\<rparr>
        ''bar'' (Some ''mkt'') ''>=1.0.0'' ''foo@m'') = ''Plugin bar is installed but not enabled''
   \<and> \<not> installed (check_plugin_dependency
        \<lparr>installed_plugins = [(''bar@mkt'', [[(''installPath'', ''/p/bar''), (''version'', ''1.5.0'')]])],
         enabled_plugins = [], known_marketplaces = []\<rparr>
        ''qux'' None ''*'' ''foo@m'')
   \<and> \<not> valid (check_plugin_dependency
        \<lparr>installed_plugins = [(''bar@mkt'', [[(''installPath'', ''/p/bar''), (''version'', ''1.5.0'')]])],
         enabled_plugins = [], known_marketplaces = []\<rparr>
        ''qux'' None ''*'' ''foo@m'')
   \<and> help_text (check_plugin_dependency
        \<lparr>installed_plugins = [(''bar@mkt'', [[(''installPath'', ''/p/bar''), (''version'', ''1.5.0'')]])],
         enabled_plugins = [], known_marketplaces = []\<rparr>
        ''qux'' None ''*'' ''foo@m'')
       = ''Plugin qux is not installed. Install with: claude plugin install qux''
   \<and> installed (check_plugin_dependency
        \<lparr>installed_plugins = [(''bar@mkt'', [[(''installPath'', ''/p/bar''), (''version'', ''1.5.0'')]])],
         enabled_plugins = [], known_marketplaces = []\<rparr>
        ''bar'' (Some ''other'') ''>=2.0.0'' ''foo@m'')
   \<and> \<not> valid (check_plugin_dependency
        \<lparr>installed_plugins = [(''bar@mkt'', [[(''installPath'', ''/p/bar''), (''version'', ''1.5.0'')]])],
         enabled_plugins = [], known_marketplaces = []\<rparr>
        ''bar'' (Some ''other'') ''>=2.0.0'' ''foo@m'')"
proof -
  have pk: "parse_plugin_key ''bar@mkt'' = (''bar'', ''mkt'')" by code_simp
  have s1: "version_satisfies ''1.5.0'' ''>=1.0.0''" by code_simp
  have s2: "\<not> version_satisfies ''1.5.0'' ''>=2.0.0''" by code_simp
  from pk s1 s2
    C5_plugin_dependency [where dm = "Some ''mkt''" and self = "\<lparr>installed_plugins = [(''bar@mkt'', [[(''installPath'', ''/p/bar''), (''version'', ''1.5.0'')]])],
         enabled_plugins = [], known_marketplaces = []\<rparr>"
      and dp = "''bar''" and i = "[(''installPath'', ''/p/bar''), (''version'', ''1.5.0'')]" and req = "''>=1.0.0''" and dep = "''foo@m''" and e = "[]"]
    C5_plugin_dependency [where dm = None and self = "\<lparr>installed_plugins = [(''bar@mkt'', [[(''installPath'', ''/p/bar''), (''version'', ''1.5.0'')]])],
         enabled_plugins = [], known_marketplaces = []\<rparr>"
      and dp = "''qux''" and i = "[]" and req = "''*''" and dep = "''foo@m''" and e = "[]"]
    C5_plugin_dependency [where dm = "Some ''other''" and self = "\<lparr>installed_plugins = [(''bar@mkt'', [[(''installPath'', ''/p/bar''), (''version'', ''1.5.0'')]])],
         enabled_plugins = [], known_marketplaces = []\<rparr>"
      and dp = "''bar''" and i = "[(''installPath'', ''/p/bar''), (''version'', ''1.5.0'')]" and req = "''>=2.0.0''" and dep = "''foo@m''" and e = "[]"]
  show ?thesis by (simp add: Let_def truthy_def str_or_empty_def)
qed

section \<open>The claims about the plugins to check\<close>

lemma search_by_name_find:
  "search_by_name ps n =
     (case find (\<lambda>(k, installs). fst (parse_plugin_key k) = n \<and> installs \<noteq> []) ps of
        Some (k, i # _) \<Rightarrow> [(k, dict_get i ''installPath'' [], snd (parse_plugin_key k))]
      | _ \<Rightarrow> [])"
  by (induction ps n rule: search_by_name.induct) (auto split: list.split prod.split)

lemma search_by_name_length: "length (search_by_name ps n) \<le> 1"
  by (induction ps n rule: search_by_name.induct) (auto split: prod.split)

lemma parse_plugin_key_join:
  assumes "CHR ''@'' \<in> set k"
  shows "fst (parse_plugin_key k) @ ''@'' @ snd (parse_plugin_key k) = k"
proof -
  let ?P = "\<lambda>c. c \<noteq> CHR ''@''"
  let ?d = "dropWhile ?P (rev k)"
  from assms have ne: "?d \<noteq> []" by (simp add: dropWhile_eq_Nil_conv)
  then have "\<not> ?P (hd ?d)" by (rule hd_dropWhile)
  then have "hd ?d = CHR ''@''" by simp
  with ne have d: "?d = CHR ''@'' # tl ?d" by (metis list.collapse)
  have "rev k = takeWhile ?P (rev k) @ ?d" by simp
  then have "rev k = takeWhile ?P (rev k) @ CHR ''@'' # tl ?d" using d by metis
  then have "k = rev (takeWhile ?P (rev k) @ CHR ''@'' # tl ?d)" by (metis rev_rev_ident)
  then have "k = rev (tl ?d) @ CHR ''@'' # rev (takeWhile ?P (rev k))" by simp
  with assms show ?thesis by (simp add: parse_plugin_key_def)
qed

lemma parse_plugin_key_mkt: "snd (parse_plugin_key k) \<noteq> [] \<Longrightarrow> CHR ''@'' \<in> set k"
  by (auto simp add: parse_plugin_key_def split: if_splits)

text \<open>
  Claim C4 as stated fails: with \<open>foo\<close> installed from \<open>mktB\<close> only, the request
  \<open>foo@mktA\<close> finds no exact key and is answered with the install path of \<open>foo@mktB\<close>,
  under the requested key and marketplace.
\<close>

theorem C4_counterexample:
  "map_of (installed_plugins
       \<lparr>installed_plugins = [(''foo@mktB'', [[(''installPath'', ''/p/foo-b'')]])],
        enabled_plugins = [], known_marketplaces = []\<rparr>) ''foo@mktA'' = None
   \<and> get_plugins_to_check \<lparr>existing = [], plugins_dirs = []\<rparr>
       \<lparr>installed_plugins = [(''foo@mktB'', [[(''installPath'', ''/p/foo-b'')]])],
        enabled_plugins = [], known_marketplaces = []\<rparr> Enabled (Some ''foo@mktA'')
     = [(''foo@mktA'', ''/p/foo-b'', ''mktA'')]"
  by code_simp

text \<open>
  Claim C4, as the code has it. In single-plugin mode the enumerator yields at most one
  tuple. For \<open>name@marketplace\<close> the lookup tries the exact plugin key first; when that
  key is absent or has no install record, it falls back to the first installed plugin of
  that name in registry order, whatever its marketplace, and the tuple still carries the
  requested key and marketplace. For a bare name it takes the first installed plugin of
  that name across all marketplaces, under that plugin's own key and marketplace.
\<close>

theorem C4_single_plugin:
  assumes "sp \<noteq> []" and "parse_plugin_key sp = (name, mkt)"
  shows
    "(mkt \<noteq> [] \<longrightarrow>
        get_plugin_key name mkt = sp
        \<and> get_plugins_to_check fs self sc (Some sp) =
            (case map_of (installed_plugins self) sp of
               Some (i # _) \<Rightarrow> if i \<noteq> [] then [(sp, dict_get i ''installPath'' [], mkt)] else []
             | _ \<Rightarrow>
                 (case find (\<lambda>(k, installs). fst (parse_plugin_key k) = name \<and> installs \<noteq> [])
                         (installed_plugins self) of
                    Some (k, i # _) \<Rightarrow>
                      if i \<noteq> [] then [(sp, dict_get i ''installPath'' [], mkt)] else []
                  | _ \<Rightarrow> [])))
     \<and> (mkt = [] \<longrightarrow>
        get_plugins_to_check fs self sc (Some sp) =
          (case find (\<lambda>(k, installs). fst (parse_plugin_key k) = name \<and> installs \<noteq> [])
                  (installed_plugins self) of
             Some (k, i # _) \<Rightarrow> [(k, dict_get i ''installPath'' [], snd (parse_plugin_key k))]
           | _ \<Rightarrow> []))
     \<and> length (get_plugins_to_check fs self sc (Some sp)) \<le> 1"
proof -
  have key: "mkt \<noteq> [] \<longrightarrow> get_plugin_key name mkt = sp"
  proof
    assume m: "mkt \<noteq> []"
    with assms(2) have "CHR ''@'' \<in> set sp" using parse_plugin_key_mkt [of sp] by simp
    from parse_plugin_key_join [OF this] assms(2) show "get_plugin_key name mkt = sp"
      by (simp add: get_plugin_key_def)
  qed
  have with_mkt: "mkt \<noteq> [] \<longrightarrow>
      get_plugins_to_check fs self sc (Some sp) =
            (case map_of (installed_plugins self) sp of
               Some (i # _) \<Rightarrow> if i \<noteq> [] then [(sp, dict_get i ''installPath'' [], mkt)] else []
             | _ \<Rightarrow>
                 (case find (\<lambda>(k, installs). fst (parse_plugin_key k) = name \<and> installs \<noteq> [])
                         (installed_plugins self) of
                    Some (k, i # _) \<Rightarrow>
                      if i \<noteq> [] then [(sp, dict_get i ''installPath'' [], mkt)] else []
                  | _ \<Rightarrow> []))"
  proof
    assume m: "mkt \<noteq> []"
    with key have k: "get_plugin_key name mkt = sp" by simp
    from m assms k show "get_plugins_to_check fs self sc (Some sp) =
            (case map_of (installed_plugins self) sp of
               Some (i # _) \<Rightarrow> if i \<noteq> [] then [(sp, dict_get i ''installPath'' [], mkt)] else []
             | _ \<Rightarrow>
                 (case find (\<lambda>(k, installs). fst (parse_plugin_key k) = name \<and> installs \<noteq> [])
                         (installed_plugins self) of
                    Some (k, i # _) \<Rightarrow>
                      if i \<noteq> [] then [(sp, dict_get i ''installPath'' [], mkt)] else []
                  | _ \<Rightarrow> []))"
      by (simp add: get_plugins_to_check_def truthy_def str_or_empty_def info_truthy_def
          info_or_empty_def get_installed_plugin_info_def exact_installed_def
          search_installed_find Let_def
          split: option.split list.split prod.split)
  qed
  have bare: "mkt = [] \<longrightarrow>
        get_plugins_to_check fs self sc (Some sp) =
          (case find (\<lambda>(k, installs). fst (parse_plugin_key k) = name \<and> installs \<noteq> [])
                  (installed_plugins self) of
             Some (k, i # _) \<Rightarrow> [(k, dict_get i ''installPath'' [], snd (parse_plugin_key k))]
           | _ \<Rightarrow> [])"
    using assms
    by (simp add: get_plugins_to_check_def truthy_def str_or_empty_def search_by_name_find)
  have len: "length (get_plugins_to_check fs self sc (Some sp)) \<le> 1"
    using assms search_by_name_length [of "installed_plugins self" name]
    by (simp add: get_plugins_to_check_def truthy_def str_or_empty_def Let_def)
  from key with_mkt bare len show ?thesis by blast
qed

theorem C4_single_plugin_witness:
  "parse_plugin_key ''foo@mktA'' = (''foo'', ''mktA'')
   \<and> get_plugins_to_check \<lparr>existing = [], plugins_dirs = []\<rparr>
       \<lparr>installed_plugins = [(''foo@mktB'', [[(''installPath'', ''/p/foo-b'')]]),
                             (''foo@mktA'', [[(''installPath'', ''/p/foo-a'')]])],
        enabled_plugins = [], known_marketplaces = []\<rparr> Enabled (Some ''foo@mktA'')
     = [(''foo@mktA'', ''/p/foo-a'', ''mktA'')]
   \<and> parse_plugin_key ''foo@mktC'' = (''foo'', ''mktC'')
   \<and> get_plugins_to_check \<lparr>existing = [], plugins_dirs = []\<rparr>
       \<lparr>installed_plugins = [(''foo@mktB'', [[(''installPath'', ''/p/foo-b'')]]),
                             (''foo@mktA'', [[(''installPath'', ''/p/foo-a'')]])],
        enabled_plugins = [], known_marketplaces = []\<rparr> Enabled (Some ''foo@mktC'')
     = [(''foo@mktC'', ''/p/foo-b'', ''mktC'')]
   \<and> parse_plugin_key ''foo'' = (''foo'', [])
   \<and> get_plugins_to_check \<lparr>existing = [], plugins_dirs = []\<rparr>
       \<lparr>installed_plugins = [(''foo@mktB'', [[(''installPath'', ''/p/foo-b'')]]),
                             (''foo@mktA'', [[(''installPath'', ''/p/foo-a'')]])],
        enabled_plugins = [], known_marketplaces = []\<rparr> Enabled (Some ''foo'')
     = [(''foo@mktB'', ''/p/foo-b'', ''mktB'')]"
proof -
  have ne: "''foo@mktA'' \<noteq> []" "''foo@mktC'' \<noteq> []" "''foo'' \<noteq> []" by simp_all
  have p1: "parse_plugin_key ''foo@mktA'' = (''foo'', ''mktA'')" by code_simp
  have p2: "parse_plugin_key ''foo@mktC'' = (''foo'', ''mktC'')" by code_simp
  have p3: "parse_plugin_key ''foo'' = (''foo'', [])" by code_simp
  have pb: "parse_plugin_key ''foo@mktB'' = (''foo'', ''mktB'')" by code_simp
  from p1 p2 p3 pb
    C4_single_plugin [OF ne(1) p1, of "\<lparr>existing = [], plugins_dirs = []\<rparr>"
      "\<lparr>installed_plugins = [(''foo@mktB'', [[(''installPath'', ''/p/foo-b'')]]),
                             (''foo@mktA'', [[(''installPath'', ''/p/foo-a'')]])],
        enabled_plugins = [], known_marketplaces = []\<rparr>" Enabled]
    C4_single_plugin [OF ne(2) p2, of "\<lparr>existing = [], plugins_dirs = []\<rparr>"
      "\<lparr>installed_plugins = [(''foo@mktB'', [[(''installPath'', ''/p/foo-b'')]]),
                             (''foo@mktA'', [[(''installPath'', ''/p/foo-a'')]])],
        enabled_plugins = [], known_marketplaces = []\<rparr>" Enabled]
    C4_single_plugin [OF ne(3) p3, of "\<lparr>existing = [], plugins_dirs = []\<rparr>"
      "\<lparr>installed_plugins = [(''foo@mktB'', [[(''installPath'', ''/p/foo-b'')]]),
                             (''foo@mktA'', [[(''installPath'', ''/p/foo-a'')]])],
        enabled_plugins = [], known_marketplaces = []\<rparr>" Enabled]
  show ?thesis by (simp add: dict_get_def)
qed

lemma installed_tuples_keys:
  "map fst (installed_tuples ps) = map fst (filter (\<lambda>(plugin_key, installs). installs \<noteq> []) ps)"
  by (induction ps) (auto simp add: installed_tuples_def)

lemma concat_map_keys:
  assumes "\<And>e. e \<in> set es \<Longrightarrow> map fst (f e) = (if g e then [fst e] else [])"
  shows "map fst (concat (map f es)) = map fst (filter g es)"
  using assms by (induction es) auto

lemma enabled_tuples_keys:
  "map fst (enabled_tuples self) =
     map fst (filter (\<lambda>(plugin_key, en). en \<and>
        info_truthy (get_installed_plugin_info self (fst (parse_plugin_key plugin_key))
          (Some (snd (parse_plugin_key plugin_key))))) (enabled_plugins self))"
  unfolding enabled_tuples_def
  by (rule concat_map_keys) (auto simp add: Let_def split: prod.split)

lemma parse_plugin_key_append:
  assumes "CHR ''@'' \<notin> set m"
  shows "parse_plugin_key (n @ CHR ''@'' # m) = (n, m)"
proof -
  let ?P = "\<lambda>c. c \<noteq> CHR ''@''"
  have all: "x \<in> set (rev m) \<Longrightarrow> ?P x" for x using assms by auto
  have r: "rev (n @ CHR ''@'' # m) = rev m @ CHR ''@'' # rev n" by simp
  have "takeWhile ?P (rev m @ CHR ''@'' # rev n) = rev m @ takeWhile ?P (CHR ''@'' # rev n)"
    by (rule takeWhile_append2) (rule all)
  then have t: "takeWhile ?P (rev m @ CHR ''@'' # rev n) = rev m" by simp
  have "dropWhile ?P (rev m @ CHR ''@'' # rev n) = dropWhile ?P (CHR ''@'' # rev n)"
    by (rule dropWhile_append2) (rule all)
  then have d: "dropWhile ?P (rev m @ CHR ''@'' # rev n) = CHR ''@'' # rev n" by simp
  have "CHR ''@'' \<in> set (n @ CHR ''@'' # m)" by simp
  then show ?thesis
    unfolding parse_plugin_key_def r t d by simp
qed

lemma marketplace_tuples_keys:
  assumes "t \<in> set (marketplace_tuples fs K (m, info))" and "CHR ''@'' \<notin> set m"
  shows "snd (parse_plugin_key (fst t)) = m \<and> fst t \<notin> K"
  using assms
  by (auto simp add: marketplace_tuples_def Let_def parse_plugin_key_append
      split: if_splits option.splits)

lemma marketplace_tuples_distinct:
  assumes "\<forall>(loc, entries) \<in> set (plugins_dirs fs). distinct (map entry_name entries)"
  shows "distinct (map fst (marketplace_tuples fs K (m, info)))"
proof (cases "plugins_dir fs (dict_get info ''installLocation'' [])")
  case None
  then show ?thesis by (simp add: marketplace_tuples_def Let_def)
next
  case (Some entries)
  then have "(dict_get info ''installLocation'' [], entries) \<in> set (plugins_dirs fs)"
    by (simp add: plugins_dir_def map_of_SomeD)
  with assms have d: "distinct (map entry_name entries)" by auto
  have "distinct (map (\<lambda>d. entry_name d @ ''@'' @ m) (filter Q entries))" for Q
  proof -
    from d have "distinct (map entry_name (filter Q entries))" by (rule distinct_map_filter)
    moreover have "inj_on (\<lambda>n. n @ ''@'' @ m) (set (map entry_name (filter Q entries)))"
      by (rule inj_onI) simp
    ultimately have "distinct (map (\<lambda>n. n @ ''@'' @ m) (map entry_name (filter Q entries)))"
      by (simp only: distinct_map simp_thms)
    then show ?thesis by (simp add: comp_def)
  qed
  with Some show ?thesis
    by (simp add: marketplace_tuples_def Let_def comp_def)
qed

lemma marketplaces_keys:
  assumes "t \<in> set (concat (map (marketplace_tuples fs K) ms))"
    and "\<forall>m \<in> set ms. CHR ''@'' \<notin> set (fst m)"
  shows "snd (parse_plugin_key (fst t)) \<in> fst ` set ms \<and> fst t \<notin> K"
proof -
  from assms(1) obtain m where m: "m \<in> set ms" and t: "t \<in> set (marketplace_tuples fs K m)"
    by auto
  obtain n info where mi: "m = (n, info)" by (cases m)
  from assms(2) m mi have "CHR ''@'' \<notin> set n" by auto
  from marketplace_tuples_keys [OF t [unfolded mi] this] m mi show ?thesis by force
qed

lemma marketplaces_distinct:
  assumes "\<forall>(loc, entries) \<in> set (plugins_dirs fs). distinct (map entry_name entries)"
    and "distinct (map fst ms)"
    and "\<forall>m \<in> set ms. CHR ''@'' \<notin> set (fst m)"
  shows "distinct (map fst (concat (map (marketplace_tuples fs K) ms)))"
  using assms(2,3)
proof (induction ms)
  case Nil
  show ?case by simp
next
  case (Cons m ms)
  obtain n info where mi: "m = (n, info)" by (cases m)
  have a: "distinct (map fst (marketplace_tuples fs K m))"
    unfolding mi by (rule marketplace_tuples_distinct [OF assms(1)])
  have b: "distinct (map fst (concat (map (marketplace_tuples fs K) ms)))"
    using Cons by simp
  have c: "fst ` set (marketplace_tuples fs K m)
      \<inter> fst ` set (concat (map (marketplace_tuples fs K) ms)) = {}"
  proof -
    have False if "k \<in> fst ` set (marketplace_tuples fs K m)"
      and "k \<in> fst ` set (concat (map (marketplace_tuples fs K) ms))" for k
    proof -
      from that(1) obtain t where t: "t \<in> set (marketplace_tuples fs K m)" and kt: "k = fst t"
        by blast
      from that(2) obtain u where u: "u \<in> set (concat (map (marketplace_tuples fs K) ms))"
        and ku: "k = fst u"
        by blast
      from Cons.prems mi have "CHR ''@'' \<notin> set n" by simp
      from marketplace_tuples_keys [OF t [unfolded mi] this]
      have 1: "snd (parse_plugin_key (fst t)) = n" by simp
      from Cons.prems have "\<forall>m \<in> set ms. CHR ''@'' \<notin> set (fst m)" by simp
      from marketplaces_keys [OF u this]
      have 2: "snd (parse_plugin_key (fst u)) \<in> fst ` set ms" by simp
      from Cons.prems mi have "n \<notin> fst ` set ms" by simp
      with 1 2 kt ku show False by simp
    qed
    then show ?thesis by blast
  qed
  from a b c show ?case by simp
qed

text \<open>
  Claim C8 as stated fails in scope \<open>all\<close>: the key of a discovered plugin is its
  directory name, \<open>@\<close> and the marketplace name, and directory \<open>a@b\<close> of marketplace
  \<open>c\<close> gets the same key as directory \<open>a\<close> of marketplace \<open>b@c\<close>.
\<close>

theorem C8_counterexample:
  "\<not> distinct (map fst (get_plugins_to_check
     \<lparr>existing = [''/m1'', ''/m2''],
      plugins_dirs =
        [(''/m1'', [\<lparr>entry_name = ''a@b'', entry_path = ''/m1/plugins/a@b'',
                    is_dir = True, has_claude_plugin = True\<rparr>]),
         (''/m2'', [\<lparr>entry_name = ''a'', entry_path = ''/m2/plugins/a'',
                    is_dir = True, has_claude_plugin = True\<rparr>])]\<rparr>
     \<lparr>installed_plugins = [], enabled_plugins = [],
      known_marketplaces = [(''c'', [(''installLocation'', ''/m1'')]),
                            (''b@c'', [(''installLocation'', ''/m2'')])]\<rparr>
     All None))
   \<and> get_plugins_to_check
     \<lparr>existing = [''/m1'', ''/m2''],
      plugins_dirs =
        [(''/m1'', [\<lparr>entry_name = ''a@b'', entry_path = ''/m1/plugins/a@b'',
                    is_dir = True, has_claude_plugin = True\<rparr>]),
         (''/m2'', [\<lparr>entry_name = ''a'', entry_path = ''/m2/plugins/a'',
                    is_dir = True, has_claude_plugin = True\<rparr>])]\<rparr>
     \<lparr>installed_plugins = [], enabled_plugins = [],
      known_marketplaces = [(''c'', [(''installLocation'', ''/m1'')]),
                            (''b@c'', [(''installLocation'', ''/m2'')])]\<rparr>
     All None
   = [(''a@b@c'', ''/m1/plugins/a@b'', ''c''), (''a@b@c'', ''/m2/plugins/a'', ''b@c'')]"
  by code_simp

text \<open>
  Claim C8, as the code has it. The registries are dictionaries, so their keys are
  distinct, and a directory lists each name once. Then for the scopes \<open>enabled\<close> and
  \<open>installed\<close> and for a specific plugin, no two tuples of the enumeration share a
  plugin key; for the scope \<open>all\<close> the same holds when no known marketplace has an \<open>@\<close>
  in its name, which is what the key format \<open>name@marketplace\<close>, split at its last
  \<open>@\<close>, takes for granted.
\<close>

theorem C8_distinct_keys:
  assumes "distinct (map fst (installed_plugins self))"
    and "distinct (map fst (enabled_plugins self))"
    and "distinct (map fst (known_marketplaces self))"
    and "\<forall>(loc, entries) \<in> set (plugins_dirs fs). distinct (map entry_name entries)"
    and "sc = All \<and> \<not> truthy specific_plugin \<longrightarrow>
           (\<forall>m \<in> set (known_marketplaces self). CHR ''@'' \<notin> set (fst m))"
  shows "distinct (map fst (get_plugins_to_check fs self sc specific_plugin))"
proof (cases "truthy specific_plugin")
  case True
  then obtain sp where sp: "specific_plugin = Some sp" "sp \<noteq> []"
    by (auto simp add: truthy_def split: option.splits)
  obtain name mkt where p: "parse_plugin_key sp = (name, mkt)" by (cases "parse_plugin_key sp")
  have "length (get_plugins_to_check fs self sc (Some sp)) \<le> 1"
    using search_by_name_length [of "installed_plugins self" name] sp p
    by (simp add: get_plugins_to_check_def truthy_def str_or_empty_def Let_def)
  then have "length (map fst (get_plugins_to_check fs self sc (Some sp))) \<le> 1" by simp
  then have "distinct (map fst (get_plugins_to_check fs self sc (Some sp)))"
    by (cases "map fst (get_plugins_to_check fs self sc (Some sp))") auto
  with sp show ?thesis by simp
next
  case False
  have inst: "distinct (map fst (installed_tuples (installed_plugins self)))"
    unfolding installed_tuples_keys using assms(1) by (rule distinct_map_filter)
  show ?thesis
  proof (cases sc)
    case Enabled
    have "distinct (map fst (enabled_tuples self))"
      unfolding enabled_tuples_keys using assms(2) by (rule distinct_map_filter)
    with False Enabled show ?thesis by (simp add: get_plugins_to_check_def)
  next
    case Installed
    with False inst show ?thesis by (simp add: get_plugins_to_check_def)
  next
    case All
    let ?K = "fst ` set (filter (\<lambda>(plugin_key, installs). installs \<noteq> []) (installed_plugins self))"
    let ?B = "concat (map (marketplace_tuples fs ?K) (known_marketplaces self))"
    from assms(5) All False have noat: "\<forall>m \<in> set (known_marketplaces self). CHR ''@'' \<notin> set (fst m)"
      by simp
    have b: "distinct (map fst ?B)"
      by (rule marketplaces_distinct [OF assms(4) assms(3) noat])
    have keys: "set (map fst (installed_tuples (installed_plugins self))) = ?K"
      unfolding installed_tuples_keys by simp
    have c: "set (map fst (installed_tuples (installed_plugins self))) \<inter> set (map fst ?B) = {}"
    proof -
      have False if "k \<in> ?K" and "k \<in> set (map fst ?B)" for k
      proof -
        from that(2) obtain u where u: "u \<in> set ?B" and ku: "k = fst u" by auto
        from marketplaces_keys [OF u noat] that(1) ku show False by simp
      qed
      then show ?thesis unfolding keys by blast
    qed
    from inst b c have "distinct (map fst (installed_tuples (installed_plugins self) @ ?B))"
      by simp
    with False All show ?thesis by (simp add: get_plugins_to_check_def Let_def)
  qed
qed

theorem C8_distinct_keys_witness:
  "distinct (map fst (get_plugins_to_check
       \<lparr>existing = [''/m1''],
         plugins_dirs =
           [(''/m1'', [\<lparr>entry_name = ''a'', entry_path = ''/m1/plugins/a'',
                       is_dir = True, has_claude_plugin = True\<rparr>,
                      \<lparr>entry_name = ''b'', entry_path = ''/m1/plugins/b'',
                       is_dir = True, has_claude_plugin = True\<rparr>])]\<rparr>
       \<lparr>installed_plugins = [(''a@c'', [[(''installPath'', ''/p/a'')]])],
         enabled_plugins = [(''a@c'', True)],
         known_marketplaces = [(''c'', [(''installLocation'', ''/m1'')])]\<rparr>
       All None))
   \<and> get_plugins_to_check
       \<lparr>existing = [''/m1''],
         plugins_dirs =
           [(''/m1'', [\<lparr>entry_name = ''a'', entry_path = ''/m1/plugins/a'',
                       is_dir = True, has_claude_plugin = True\<rparr>,
                      \<lparr>entry_name = ''b'', entry_path = ''/m1/plugins/b'',
                       is_dir = True, has_claude_plugin = True\<rparr>])]\<rparr>
       \<lparr>installed_plugins = [(''a@c'', [[(''installPath'', ''/p/a'')]])],
         enabled_plugins = [(''a@c'', True)],
         known_marketplaces = [(''c'', [(''installLocation'', ''/m1'')])]\<rparr>
       All None
     = [(''a@c'', ''/p/a'', ''c''), (''b@c'', ''/m1/plugins/b'', ''c'')]"
proof -
  have h1: "distinct (map fst (installed_plugins
       \<lparr>installed_plugins = [(''a@c'', [[(''installPath'', ''/p/a'')]])],
         enabled_plugins = [(''a@c'', True)],
         known_marketplaces = [(''c'', [(''installLocation'', ''/m1'')])]\<rparr>))"
    by simp
  have h2: "distinct (map fst (enabled_plugins
       \<lparr>installed_plugins = [(''a@c'', [[(''installPath'', ''/p/a'')]])],
         enabled_plugins = [(''a@c'', True)],
         known_marketplaces = [(''c'', [(''installLocation'', ''/m1'')])]\<rparr>))"
    by simp
  have h3: "distinct (map fst (known_marketplaces
       \<lparr>installed_plugins = [(''a@c'', [[(''installPath'', ''/p/a'')]])],
         enabled_plugins = [(''a@c'', True)],
         known_marketplaces = [(''c'', [(''installLocation'', ''/m1'')])]\<rparr>))"
    by simp
  have h4: "\<forall>(loc, entries) \<in> set (plugins_dirs
       \<lparr>existing = [''/m1''],
         plugins_dirs =
           [(''/m1'', [\<lparr>entry_name = ''a'', entry_path = ''/m1/plugins/a'',
                       is_dir = True, has_claude_plugin = True\<rparr>,
                      \<lparr>entry_name = ''b'', entry_path = ''/m1/plugins/b'',
                       is_dir = True, has_claude_plugin = True\<rparr>])]\<rparr>). distinct (map entry_name entries)"
    by simp
  have h5: "All = All \<and> \<not> truthy None \<longrightarrow> (\<forall>m \<in> set (known_marketplaces
       \<lparr>installed_plugins = [(''a@c'', [[(''installPath'', ''/p/a'')]])],
         enabled_plugins = [(''a@c'', True)],
         known_marketplaces = [(''c'', [(''installLocation'', ''/m1'')])]\<rparr>). CHR ''@'' \<notin> set (fst m))"
    by simp
  have v: "get_plugins_to_check
       \<lparr>existing = [''/m1''],
         plugins_dirs =
           [(''/m1'', [\<lparr>entry_name = ''a'', entry_path = ''/m1/plugins/a'',
                       is_dir = True, has_claude_plugin = True\<rparr>,
                      \<lparr>entry_name = ''b'', entry_path = ''/m1/plugins/b'',
                       is_dir = True, has_claude_plugin = True\<rparr>])]\<rparr>
       \<lparr>installed_plugins = [(''a@c'', [[(''installPath'', ''/p/a'')]])],
         enabled_plugins = [(''a@c'', True)],
         known_marketplaces = [(''c'', [(''installLocation'', ''/m1'')])]\<rparr>
       All None
     = [(''a@c'', ''/p/a'', ''c''), (''b@c'', ''/m1/plugins/b'', ''c'')]"
    by code_simp
  from C8_distinct_keys [OF h1 h2 h3 h4 h5] v show ?thesis by simp
qed

end
